theory Spec2Isabelle
  imports Main "HOL-Library.Multiset" "HOL-Library.Product_Lexorder"
begin

section \<open>The snapshot store\<close>

text \<open>
  The backend (\<^verbatim>\<open>src/backend/app/main.py\<close>) reads five relational tables through
  masoniteorm's \<^verbatim>\<open>QueryBuilder\<close>. A table is the list of its rows, in the order the
  storage engine hands them out; a row is a record of the columns the code reads.

  A timestamp is what Python's naive \<^verbatim>\<open>datetime\<close> holds: the calendar date
  (year, month, day) and the time of day (hour, minute, second, microsecond). Both
  Python and the storage engine compare timestamps field by field, most significant
  first, which is the lexicographic order of the product type.
\<close>

type_synonym datetime = "(nat \<times> nat \<times> nat) \<times> (nat \<times> nat \<times> nat \<times> nat)"

record internet_exchange_point =
  ixp_id :: int
  ixp_name :: string

record route_collector =
  rc_id :: int
  rc_name :: string
  rc_ixp_id :: int

record routing_snapshot =
  rs_id :: int
  rs_route_collector_id :: int
  rs_created_at :: datetime
  rs_status :: string

text \<open>
  A route's \<^verbatim>\<open>path\<close> is a JSON array of AS numbers, the origin AS last.
\<close>

record ip_route =
  ir_block :: string
  ir_path :: "nat list"
  ir_snapshot_id :: int
  ir_created_at :: datetime

record autonomous_system =
  as_number :: nat
  as_name :: string

record database =
  internet_exchange_points :: "internet_exchange_point list"
  route_collectors :: "route_collector list"
  routing_snapshots :: "routing_snapshot list"
  ip_routes :: "ip_route list"
  autonomous_systems :: "autonomous_system list"

subsection \<open>Query primitives\<close>

text \<open>
  \<^verbatim>\<open>.first()\<close> is \<^verbatim>\<open>LIMIT 1\<close>: the first row of the result, or \<^verbatim>\<open>None\<close>.
\<close>

definition first_row :: "'a list \<Rightarrow> 'a option" where
  "first_row rows = (case rows of [] \<Rightarrow> None | r # _ \<Rightarrow> Some r)"

text \<open>
  \<^verbatim>\<open>.order_by(column, 'desc')\<close>: the rows by non-increasing column value. The engine
  fixes no order among rows with equal values; the model keeps them in table order.
\<close>

fun insert_desc :: "('a \<Rightarrow> 'k::linorder) \<Rightarrow> 'a \<Rightarrow> 'a list \<Rightarrow> 'a list" where
  "insert_desc column r [] = [r]"
| "insert_desc column r (x # xs) =
     (if column x < column r then r # x # xs else x # insert_desc column r xs)"

definition order_by_desc :: "('a \<Rightarrow> 'k::linorder) \<Rightarrow> 'a list \<Rightarrow> 'a list" where
  "order_by_desc column rows = foldl (\<lambda>acc r. insert_desc column r acc) [] rows"

text \<open>
  \<^verbatim>\<open>.last(column)\<close> is \<^verbatim>\<open>ORDER BY column DESC LIMIT 1\<close>.
\<close>

definition last_row :: "('a \<Rightarrow> 'k::linorder) \<Rightarrow> 'a list \<Rightarrow> 'a option" where
  "last_row column rows = first_row (order_by_desc column rows)"

text \<open>
  \<^verbatim>\<open>.count()\<close> is \<^verbatim>\<open>COUNT(*)\<close>, a Python integer.
\<close>

definition count_rows :: "'a list \<Rightarrow> int" where
  "count_rows rows = int (length rows)"

text \<open>
  \<^verbatim>\<open>QueryBuilder().table("route_collectors").where('name', collector_name).first()\<close>,
  the first statement of each per-collector endpoint.
\<close>

definition route_collector_by_name :: "database \<Rightarrow> string \<Rightarrow> route_collector option" where
  "route_collector_by_name db collector_name =
     first_row (filter (\<lambda>c. rc_name c = collector_name) (route_collectors db))"

subsection \<open>Errors and the query log\<close>

text \<open>
  The endpoints raise \<^verbatim>\<open>HTTPException(status_code, detail)\<close>; a dictionary read of
  a missing key raises \<^verbatim>\<open>KeyError(key)\<close>; \<^verbatim>\<open>crontab\<close> raises \<^verbatim>\<open>ValueError\<close> on a
  field outside its range; the schedule registry may refuse a name that is already
  registered. To state in which order the store is read, the
  per-collector endpoints also return the list of the queries they have run, oldest
  first: a \<^verbatim>\<open>QueryBuilder().table(t)\<close> query on table \<open>t\<close>, or the raw route
  statement.
\<close>

datatype error =
  HTTPException nat string | KeyError string | ValueError | DuplicateNameError string

datatype query = Table_query string | Route_statement

section \<open>Statistics\<close>

record statistics =
  route_collector_count :: int
  snapshots_count :: int
  st_autonomous_systems :: int
  ixp_count :: int

definition get_database_statistics :: "database \<Rightarrow> statistics" where
  "get_database_statistics db =
     (let route_collector_count = count_rows (route_collectors db);
          ixp_count = count_rows (internet_exchange_points db);
          routing_snapshots_count = count_rows (routing_snapshots db);
          autonomous_systems_count = count_rows (autonomous_systems db)
      in \<lparr>route_collector_count = route_collector_count,
          snapshots_count = routing_snapshots_count,
          st_autonomous_systems = autonomous_systems_count,
          ixp_count = ixp_count\<rparr>)"

section \<open>Snapshots of a collector\<close>

text \<open>
  \<^verbatim>\<open>get_route_collector_snapshots\<close>: the collector is looked up by name; its snapshots
  with status \<^verbatim>\<open>'parsed'\<close> are selected as \<^verbatim>\<open>id, created_at\<close>, most recent first.
\<close>

definition get_route_collector_snapshots ::
  "database \<Rightarrow> string \<Rightarrow> query list \<times> (error + (int \<times> datetime) list)" where
  "get_route_collector_snapshots db collector_name =
     (case route_collector_by_name db collector_name of
        None \<Rightarrow> ([Table_query ''route_collectors''],
                 Inl (HTTPException 404 ''Route Collector not found''))
      | Some route_collector \<Rightarrow>
          (let route_collector_id = rc_id route_collector
           in ([Table_query ''route_collectors'', Table_query ''routing_snapshots''],
               Inr (map (\<lambda>s. (rs_id s, rs_created_at s))
                      (order_by_desc rs_created_at
                         (filter (\<lambda>s. rs_route_collector_id s = route_collector_id
                                       \<and> rs_status s = ''parsed'')
                            (routing_snapshots db)))))))"

section \<open>Routes of a snapshot\<close>

subsection \<open>The route statement\<close>

text \<open>
  The join compares two texts: \<^verbatim>\<open>path->>-1\<close>, the last element of the path as text
  (\<^verbatim>\<open>NULL\<close> for an empty path), and \<^verbatim>\<open>as2.number::text\<close>. Both are the decimal
  numeral of an AS number.
\<close>

definition digit_char :: "nat \<Rightarrow> char" where
  \<comment> \<open>only applied to \<open>d < 10\<close>\<close>
  "digit_char d = ''0123456789'' ! d"

fun text_of_nat :: "nat \<Rightarrow> string" where
  "text_of_nat n =
     (if n < 10 then [digit_char n] else text_of_nat (n div 10) @ [digit_char (n mod 10)])"

declare text_of_nat.simps [simp del]

definition json_last_text :: "nat list \<Rightarrow> string option" where
  "json_last_text path = (if path = [] then None else Some (text_of_nat (last path)))"

record route =
  ro_block :: string
  ro_path :: "nat list"
  ro_origin :: "string option"
  ro_name :: "string option"

text \<open>
  \<^verbatim>\<open>FROM ip_routes LEFT JOIN autonomous_systems as2 ON ...\<close>: every route row paired
  with each autonomous system the condition holds for, or once with \<^verbatim>\<open>NULL\<close> when it
  holds for none (a \<^verbatim>\<open>NULL\<close> origin equals nothing).
\<close>

definition left_join_as2 ::
  "autonomous_system list \<Rightarrow> ip_route \<Rightarrow> (ip_route \<times> autonomous_system option) list" where
  "left_join_as2 as2 r =
     (let matches = filter (\<lambda>a. json_last_text (ir_path r) = Some (text_of_nat (as_number a))) as2
      in if matches = [] then [(r, None)] else map (\<lambda>a. (r, Some a)) matches)"

text \<open>
  \<^verbatim>\<open>WHERE ip_routes.created_at = ? AND ip_routes.snapshot_id = ?\<close> on the joined rows.
\<close>

definition route_rows ::
  "database \<Rightarrow> datetime \<Rightarrow> int \<Rightarrow> (ip_route \<times> autonomous_system option) list" where
  "route_rows db created_at snapshot_id =
     filter (\<lambda>(r, a). ir_created_at r = created_at \<and> ir_snapshot_id r = snapshot_id)
       (concat (map (left_join_as2 (autonomous_systems db)) (ip_routes db)))"

text \<open>
  \<^verbatim>\<open>SELECT block, path, path->>-1 origin, as2.name\<close>.
\<close>

definition select_route :: "ip_route \<times> autonomous_system option \<Rightarrow> route" where
  "select_route ra =
     \<lparr>ro_block = ir_block (fst ra), ro_path = ir_path (fst ra),
      ro_origin = json_last_text (ir_path (fst ra)),
      ro_name = map_option as_name (snd ra)\<rparr>"

text \<open>
  \<^verbatim>\<open>QueryBuilder().statement(query, bindings)\<close> hands the rows over as
  \<^verbatim>\<open>result or None\<close>: the list of the rows, or \<^verbatim>\<open>None\<close> when there is no row.
\<close>

definition route_statement :: "database \<Rightarrow> datetime \<Rightarrow> int \<Rightarrow> route list option" where
  "route_statement db created_at snapshot_id =
     (let result = map select_route (route_rows db created_at snapshot_id)
      in if result = [] then None else Some result)"

subsection \<open>The two route endpoints\<close>

text \<open>
  \<^verbatim>\<open>created_at.replace(tzinfo=timezone.utc)\<close> labels the timestamp as UTC and keeps
  its fields.
\<close>

record snapshot_metadata =
  md_created_at :: datetime
  md_snapshot_id :: int

record routes_response =
  metadata :: snapshot_metadata
  routes :: "route list option"

definition routes_of_snapshot :: "database \<Rightarrow> routing_snapshot \<Rightarrow> routes_response" where
  "routes_of_snapshot db snapshot =
     (let snapshot_metadata =
            \<lparr>md_created_at = rs_created_at snapshot, md_snapshot_id = rs_id snapshot\<rparr>;
          routes = route_statement db (rs_created_at snapshot) (rs_id snapshot)
      in \<lparr>metadata = snapshot_metadata, routes = routes\<rparr>)"

text \<open>
  \<^verbatim>\<open>GET /route-collectors/{collector_name}/snapshots/latest/routes\<close>
\<close>

definition get_snapshot_routes_latest ::
  "database \<Rightarrow> string \<Rightarrow> query list \<times> (error + routes_response)" where
  "get_snapshot_routes_latest db collector_name =
     (case route_collector_by_name db collector_name of
        None \<Rightarrow> ([Table_query ''route_collectors''],
                 Inl (HTTPException 404 ''Route Collector not found''))
      | Some route_collector \<Rightarrow>
          (let route_collector_id = rc_id route_collector
           in case last_row rs_id
                     (filter (\<lambda>s. rs_route_collector_id s = route_collector_id)
                        (routing_snapshots db)) of
                None \<Rightarrow> ([Table_query ''route_collectors'', Table_query ''routing_snapshots''],
                         Inl (HTTPException 404 ''Routing snapshot not found''))
              | Some snapshot \<Rightarrow>
                  ([Table_query ''route_collectors'', Table_query ''routing_snapshots'',
                    Route_statement],
                   Inr (routes_of_snapshot db snapshot))))"

text \<open>
  \<^verbatim>\<open>GET /route-collectors/{collector_name}/snapshots/{snapshot_id}/routes\<close>. The
  source binds \<^verbatim>\<open>route_collector_id\<close> and does not read it again.
\<close>

definition get_snapshot_routes ::
  "database \<Rightarrow> string \<Rightarrow> int \<Rightarrow> query list \<times> (error + routes_response)" where
  "get_snapshot_routes db collector_name snapshot_id =
     (case route_collector_by_name db collector_name of
        None \<Rightarrow> ([Table_query ''route_collectors''],
                 Inl (HTTPException 404 ''Route Collector not found''))
      | Some route_collector \<Rightarrow>
          (let route_collector_id = rc_id route_collector
           in case first_row (filter (\<lambda>s. rs_id s = snapshot_id) (routing_snapshots db)) of
                None \<Rightarrow> ([Table_query ''route_collectors'', Table_query ''routing_snapshots''],
                         Inl (HTTPException 404 ''Routing snapshot not found''))
              | Some snapshot \<Rightarrow>
                  ([Table_query ''route_collectors'', Table_query ''routing_snapshots'',
                    Route_statement],
                   Inr (routes_of_snapshot db snapshot))))"

section \<open>Exchange points\<close>

text \<open>
  \<^verbatim>\<open>strftime('%Y-%m-%d')\<close>: the year as its decimal numeral (the C library does not
  pad a year below 1000), then month and day, each padded with zeros to two digits.
\<close>

definition zfill :: "nat \<Rightarrow> string \<Rightarrow> string" where
  "zfill width s = replicate (width - length s) (CHR ''0'') @ s"

definition strftime_Ymd :: "datetime \<Rightarrow> string" where
  "strftime_Ymd dt =
     (case dt of ((year, month, day), _) \<Rightarrow>
        text_of_nat year @ ''-'' @ zfill 2 (text_of_nat month)
          @ ''-'' @ zfill 2 (text_of_nat day))"

text \<open>
  An entry of the answer is the exchange point's row with \<^verbatim>\<open>route_collectors\<close> added
  and, when a snapshot was found, the three \<^verbatim>\<open>last_snapshot_*\<close> keys (absent keys
  are \<open>None\<close>).
\<close>

record exchange_point =
  ep_id :: int
  ep_name :: string
  ep_route_collectors :: int
  ep_last_snapshot_date :: "string option"
  ep_last_snapshot_id :: "int option"
  ep_last_snapshot_collector_name :: "string option"

text \<open>
  The body of the loop over the exchange points, for one of them.
\<close>

definition exchange_point_summary ::
  "database \<Rightarrow> internet_exchange_point \<Rightarrow> error + exchange_point" where
  "exchange_point_summary db ixp =
     (let collectors = filter (\<lambda>c. rc_ixp_id c = ixp_id ixp) (route_collectors db);
          route_collectors_dict =
            fold (\<lambda>collector d. d(rc_id collector \<mapsto> rc_name collector)) collectors Map.empty;
          collector_ids = map rc_id collectors;
          last_update =
            first_row (order_by_desc rs_created_at
              (filter (\<lambda>s. rs_route_collector_id s \<in> set collector_ids) (routing_snapshots db)));
          ep = \<lparr>ep_id = ixp_id ixp, ep_name = ixp_name ixp,
                ep_route_collectors = int (length collector_ids),
                ep_last_snapshot_date = None, ep_last_snapshot_id = None,
                ep_last_snapshot_collector_name = None\<rparr>
      in case last_update of
           None \<Rightarrow> Inr ep
         | Some lu \<Rightarrow>
             (case route_collectors_dict (rs_route_collector_id lu) of
                None \<Rightarrow> Inl (KeyError ''route_collector_id'')
              | Some collector_name \<Rightarrow>
                  Inr (ep\<lparr>ep_last_snapshot_date := Some (strftime_Ymd (rs_created_at lu)),
                          ep_last_snapshot_id := Some (rs_id lu),
                          ep_last_snapshot_collector_name := Some collector_name\<rparr>)))"

text \<open>
  \<^verbatim>\<open>exchange_points[ixp['id']] = ...\<close>: a dictionary keeps the place of a key it
  already has and replaces its value.
\<close>

fun dict_set :: "'k \<Rightarrow> 'v \<Rightarrow> ('k \<times> 'v) list \<Rightarrow> ('k \<times> 'v) list" where
  "dict_set k v [] = [(k, v)]"
| "dict_set k v ((k', v') # d) = (if k' = k then (k, v) # d else (k', v') # dict_set k v d)"

fun exchange_points_loop ::
  "database \<Rightarrow> internet_exchange_point list \<Rightarrow> (int \<times> exchange_point) list
   \<Rightarrow> error + (int \<times> exchange_point) list" where
  "exchange_points_loop db [] exchange_points = Inr exchange_points"
| "exchange_points_loop db (ixp # ixp_results) exchange_points =
     (case exchange_point_summary db ixp of
        Inl e \<Rightarrow> Inl e
      | Inr ep \<Rightarrow> exchange_points_loop db ixp_results (dict_set (ixp_id ixp) ep exchange_points))"

definition exchange_points_index :: "database \<Rightarrow> error + (int \<times> exchange_point) list" where
  "exchange_points_index db = exchange_points_loop db (internet_exchange_points db) []"

section \<open>The schedule\<close>

text \<open>
  A schedule entry as \<^verbatim>\<open>startup\<close> builds it: a name, a \<^verbatim>\<open>crontab(hour, minute)\<close>
  trigger, the task's name and its positional arguments.
\<close>

record crontab_schedule =
  cron_hour :: int
  cron_minute :: int

text \<open>
  \<^verbatim>\<open>crontab(hour=hour, minute=minutes)\<close> of celery, on integer fields: the schedule,
  or \<^verbatim>\<open>ValueError\<close> when the hour is outside 0..23 or the minute outside 0..59.
\<close>

definition crontab :: "int \<Rightarrow> int \<Rightarrow> error + crontab_schedule" where
  "crontab hour minute =
     (if 0 \<le> hour \<and> hour < 24 \<and> 0 \<le> minute \<and> minute < 60
      then Inr \<lparr>cron_hour = hour, cron_minute = minute\<rparr>
      else Inl ValueError)"

record schedule_entry =
  se_name :: string
  se_schedule :: crontab_schedule
  se_task :: string
  se_args :: "string list"

type_synonym registry = "schedule_entry list"

text \<open>
  Modelled from the spec: the Schedule Registry (\<^verbatim>\<open>RedisScheduler\<close> of the redisbeat
  package, whose code is not under src/). \<^verbatim>\<open>list()\<close> gives the sequence of the
  entries; \<^verbatim>\<open>remove(name)\<close> takes one entry of that name out and is a no-op when
  there is none; \<^verbatim>\<open>add(entry)\<close> on a name already present either fails with
  \<^verbatim>\<open>DuplicateNameError\<close> or replaces the entry (the spec leaves the policy open, so
  it is a parameter).
\<close>

datatype add_policy = Upsert | Reject

definition scheduler_list :: "registry \<Rightarrow> schedule_entry list" where
  "scheduler_list reg = reg"

fun scheduler_remove :: "string \<Rightarrow> registry \<Rightarrow> registry" where
  "scheduler_remove n [] = []"
| "scheduler_remove n (e # reg) = (if se_name e = n then reg else e # scheduler_remove n reg)"

definition scheduler_add :: "add_policy \<Rightarrow> schedule_entry \<Rightarrow> registry \<Rightarrow> error + registry" where
  "scheduler_add policy e reg =
     (if se_name e \<in> se_name ` set reg
      then (case policy of
              Reject \<Rightarrow> Inl (DuplicateNameError (se_name e))
            | Upsert \<Rightarrow> Inr (map (\<lambda>x. if se_name x = se_name e then e else x) reg))
      else Inr (reg @ [e]))"

text \<open>
  The parsed configuration: \<^verbatim>\<open>aspath_config["grabbers"]\<close> is a table from grabber
  name to a table of integer fields, iterated in the order of the document.
\<close>

type_synonym grabbers = "(string \<times> (string \<rightharpoonup> int)) list"

type_synonym aspath_config = "string \<rightharpoonup> grabbers"

text \<open>
  \<^verbatim>\<open>for task in scheduler.list(): scheduler.remove(task.name)\<close>
\<close>

fun wipe_tasks :: "schedule_entry list \<Rightarrow> registry \<Rightarrow> registry" where
  "wipe_tasks [] reg = reg"
| "wipe_tasks (task # tasks) reg = wipe_tasks tasks (scheduler_remove (se_name task) reg)"

text \<open>
  \<^verbatim>\<open>for grabber in aspath_config["grabbers"]: ... scheduler.add(...)\<close>. A raise leaves
  the registry as it is at that moment.
\<close>

fun setup_schedule ::
  "add_policy \<Rightarrow> grabbers \<Rightarrow> string list \<Rightarrow> registry \<Rightarrow> registry \<times> (error + unit)" where
  "setup_schedule policy gs [] reg = (reg, Inr ())"
| "setup_schedule policy gs (grabber # rest) reg =
     (case map_of gs grabber of
        None \<Rightarrow> (reg, Inl (KeyError grabber))
      | Some grabber_cfg \<Rightarrow>
          (case grabber_cfg ''hour'' of
             None \<Rightarrow> (reg, Inl (KeyError ''hour''))
           | Some hour \<Rightarrow>
               (case grabber_cfg ''minutes'' of
                  None \<Rightarrow> (reg, Inl (KeyError ''minutes''))
                | Some minutes \<Rightarrow>
                    (case crontab hour minutes of
                       Inl e \<Rightarrow> (reg, Inl e)
                     | Inr schedule \<Rightarrow>
                         (case scheduler_add policy
                                 \<lparr>se_name = ''grab-'' @ grabber,
                                  se_schedule = schedule,
                                  se_task = ''worker.grab_and_ingest'',
                                  se_args = [grabber]\<rparr> reg of
                            Inl e \<Rightarrow> (reg, Inl e)
                          | Inr reg' \<Rightarrow> setup_schedule policy gs rest reg')))))"

definition startup :: "add_policy \<Rightarrow> aspath_config \<Rightarrow> registry \<Rightarrow> registry \<times> (error + unit)" where
  "startup policy aspath_config reg =
     (let reg1 = wipe_tasks (scheduler_list reg) reg
      in case aspath_config ''grabbers'' of
           None \<Rightarrow> (reg1, Inl (KeyError ''grabbers''))
         | Some gs \<Rightarrow> setup_schedule policy gs (map fst gs) reg1)"

section \<open>Notions used to state the properties\<close>

text \<open>
  The entry the schedule is expected to hold for a collector with its cron fields, the
  snapshots of all the collectors of an exchange point, and the routes a response
  carries (none when \<^verbatim>\<open>routes\<close> is \<^verbatim>\<open>None\<close>).
\<close>

definition returned_routes :: "routes_response \<Rightarrow> route set" where
  "returned_routes response = (case routes response of None \<Rightarrow> {} | Some rs \<Rightarrow> set rs)"

definition spec_schedule_entry :: "string \<times> int \<times> int \<Rightarrow> schedule_entry" where
  "spec_schedule_entry ghm =
     (case ghm of (collector, hour, minute) \<Rightarrow>
        \<lparr>se_name = ''grab-'' @ collector,
         se_schedule = \<lparr>cron_hour = hour, cron_minute = minute\<rparr>,
         se_task = ''worker.grab_and_ingest'',
         se_args = [collector]\<rparr>)"

definition snapshots_of_exchange_point :: "database \<Rightarrow> int \<Rightarrow> routing_snapshot list" where
  "snapshots_of_exchange_point db k =
     filter (\<lambda>s. \<exists>c\<in>set (route_collectors db). rc_ixp_id c = k \<and> rc_id c = rs_route_collector_id s)
       (routing_snapshots db)"

section \<open>A sample store\<close>

text \<open>
  Three collectors at two of three exchange points. Collector 1 has two parsed
  snapshots and a newer pending one; snapshot 13 of collector 2 shares the pending
  snapshot's \<^verbatim>\<open>created_at\<close>; collector 3 has a failed snapshot only, of an earlier
  date. Snapshots 10 and 14 have no route rows. One origin AS is known by name.
  The configuration schedules two grabbers; the registry still holds two entries of an
  earlier run, one of them under a name the configuration uses again. A second
  configuration gives its second grabber the hour 25.
\<close>

definition example_db :: database where
  "example_db =
     \<lparr>internet_exchange_points =
        [\<lparr>ixp_id = 1, ixp_name = ''AMS-IX''\<rparr>, \<lparr>ixp_id = 2, ixp_name = ''DE-CIX''\<rparr>,
         \<lparr>ixp_id = 3, ixp_name = ''LINX''\<rparr>],
      route_collectors =
        [\<lparr>rc_id = 1, rc_name = ''ams-rc1'', rc_ixp_id = 1\<rparr>,
         \<lparr>rc_id = 2, rc_name = ''ams-rc2'', rc_ixp_id = 1\<rparr>,
         \<lparr>rc_id = 3, rc_name = ''dec-rc1'', rc_ixp_id = 2\<rparr>],
      routing_snapshots =
        [\<lparr>rs_id = 10, rs_route_collector_id = 1,
          rs_created_at = ((2024, 3, 9), (2, 0, 0, 0)), rs_status = ''parsed''\<rparr>,
         \<lparr>rs_id = 11, rs_route_collector_id = 1,
          rs_created_at = ((2024, 3, 10), (2, 0, 0, 0)), rs_status = ''parsed''\<rparr>,
         \<lparr>rs_id = 12, rs_route_collector_id = 1,
          rs_created_at = ((2024, 3, 11), (2, 0, 0, 0)), rs_status = ''pending''\<rparr>,
         \<lparr>rs_id = 13, rs_route_collector_id = 2,
          rs_created_at = ((2024, 3, 11), (2, 0, 0, 0)), rs_status = ''parsed''\<rparr>,
         \<lparr>rs_id = 14, rs_route_collector_id = 3,
          rs_created_at = ((2023, 12, 5), (3, 15, 0, 0)), rs_status = ''failed''\<rparr>],
      ip_routes =
        [\<lparr>ir_block = ''10.0.0.0/8'', ir_path = [64500, 64501], ir_snapshot_id = 12,
          ir_created_at = ((2024, 3, 11), (2, 0, 0, 0))\<rparr>,
         \<lparr>ir_block = ''192.0.2.0/24'', ir_path = [64500, 64999], ir_snapshot_id = 12,
          ir_created_at = ((2024, 3, 11), (2, 0, 0, 0))\<rparr>,
         \<lparr>ir_block = ''198.51.100.0/24'', ir_path = [64502], ir_snapshot_id = 13,
          ir_created_at = ((2024, 3, 11), (2, 0, 0, 0))\<rparr>,
         \<lparr>ir_block = ''203.0.113.0/24'', ir_path = [], ir_snapshot_id = 11,
          ir_created_at = ((2024, 3, 10), (2, 0, 0, 0))\<rparr>],
      autonomous_systems = [\<lparr>as_number = 64501, as_name = ''Example Net''\<rparr>]\<rparr>"

definition example_grabbers :: grabbers where
  "example_grabbers =
     [(''AMS-IX'', [''hour'' \<mapsto> 2, ''minutes'' \<mapsto> 0]),
      (''DE-CIX'', [''hour'' \<mapsto> 3, ''minutes'' \<mapsto> 15])]"

definition example_config :: aspath_config where
  "example_config = [''grabbers'' \<mapsto> example_grabbers]"

definition hour25_config :: aspath_config where
  "hour25_config =
     [''grabbers'' \<mapsto>
        [(''AMS-IX'', [''hour'' \<mapsto> 2, ''minutes'' \<mapsto> 0]),
         (''DE-CIX'', [''hour'' \<mapsto> 25, ''minutes'' \<mapsto> 15])]]"

definition stale_registry :: registry where
  "stale_registry =
     [\<lparr>se_name = ''grab-LINX'', se_schedule = \<lparr>cron_hour = 1, cron_minute = 30\<rparr>,
       se_task = ''worker.grab_and_ingest'', se_args = [''LINX'']\<rparr>,
      \<lparr>se_name = ''grab-AMS-IX'', se_schedule = \<lparr>cron_hour = 5, cron_minute = 45\<rparr>,
       se_task = ''worker.grab_and_ingest'', se_args = [''AMS-IX'']\<rparr>]"

section \<open>Properties of the query primitives\<close>

lemma first_row_None: "first_row rows = None \<longleftrightarrow> rows = []"
  by (cases rows) (simp_all add: first_row_def)

lemma first_row_filter_None: "first_row (filter P rows) = None \<longleftrightarrow> (\<forall>r\<in>set rows. \<not> P r)"
  by (simp add: first_row_None filter_empty_conv)

lemma first_row_filter_Some:
  "first_row (filter P rows) = Some r \<Longrightarrow> r \<in> set rows \<and> P r"
proof -
  assume "first_row (filter P rows) = Some r"
  then obtain rest where "filter P rows = r # rest"
    by (auto simp: first_row_def split: list.splits)
  then have "r \<in> set (filter P rows)" by simp
  then show ?thesis by simp
qed

lemma mset_insert_desc: "mset (insert_desc column r xs) = add_mset r (mset xs)"
  by (induction xs) auto

lemma set_insert_desc: "set (insert_desc column r xs) = insert r (set xs)"
  by (induction xs) auto

lemma sorted_insert_desc:
  "sorted_wrt (\<lambda>a b. column b \<le> column a) xs
   \<Longrightarrow> sorted_wrt (\<lambda>a b. column b \<le> column a) (insert_desc column r xs)"
  by (induction xs) (auto simp: set_insert_desc)

lemma foldl_insert_desc_mset:
  "mset (foldl (\<lambda>acc r. insert_desc column r acc) acc rows) = mset acc + mset rows"
  by (induction rows arbitrary: acc) (auto simp: mset_insert_desc)

lemma foldl_insert_desc_sorted:
  "sorted_wrt (\<lambda>a b. column b \<le> column a) acc
   \<Longrightarrow> sorted_wrt (\<lambda>a b. column b \<le> column a)
         (foldl (\<lambda>acc r. insert_desc column r acc) acc rows)"
  by (induction rows arbitrary: acc) (auto simp: sorted_insert_desc)

lemma mset_order_by_desc: "mset (order_by_desc column rows) = mset rows"
  by (simp add: order_by_desc_def foldl_insert_desc_mset)

lemma set_order_by_desc: "set (order_by_desc column rows) = set rows"
  using mset_order_by_desc [of column rows] by (metis set_mset_mset)

lemma sorted_order_by_desc:
  "sorted_wrt (\<lambda>a b. column b \<le> column a) (order_by_desc column rows)"
  by (simp add: order_by_desc_def foldl_insert_desc_sorted)

lemma route_collector_by_name_None:
  "route_collector_by_name db n = None \<longleftrightarrow> (\<forall>c\<in>set (route_collectors db). rc_name c \<noteq> n)"
  by (simp add: route_collector_by_name_def first_row_filter_None)

lemma route_collector_by_name_Some:
  "route_collector_by_name db n = Some c \<Longrightarrow> c \<in> set (route_collectors db) \<and> rc_name c = n"
  unfolding route_collector_by_name_def by (drule first_row_filter_Some) simp

lemma first_row_sorted_max:
  assumes "first_row (order_by_desc column rows) = Some r"
  shows "r \<in> set rows \<and> (\<forall>x\<in>set rows. column x \<le> column r)"
proof -
  from assms obtain rest where eq: "order_by_desc column rows = r # rest"
    by (auto simp: first_row_def split: list.splits)
  have "r \<in> set (order_by_desc column rows)" by (simp add: eq)
  then have mem: "r \<in> set rows" by (simp add: set_order_by_desc)
  have "sorted_wrt (\<lambda>a b. column b \<le> column a) (r # rest)"
    using sorted_order_by_desc [of column rows] by (simp add: eq)
  then have "\<forall>x\<in>set rest. column x \<le> column r" by simp
  then have "\<forall>x\<in>set (order_by_desc column rows). column x \<le> column r"
    by (simp add: eq)
  then have "\<forall>x\<in>set rows. column x \<le> column r"
    by (simp only: set_order_by_desc)
  with mem show ?thesis by simp
qed

lemma last_row_None: "last_row column rows = None \<longleftrightarrow> rows = []"
proof -
  have "order_by_desc column rows = [] \<longleftrightarrow> rows = []"
    using mset_order_by_desc [of column rows] by (metis mset_zero_iff)
  then show ?thesis by (simp add: last_row_def first_row_None)
qed

lemma digit_char_inj:
  assumes "a < 10" "b < 10" "digit_char a = digit_char b"
  shows "a = b"
proof -
  have d: "distinct ''0123456789''" by simp
  have "a < length ''0123456789''" "b < length ''0123456789''"
    using assms(1,2) by simp_all
  with d assms(3) show ?thesis
    unfolding digit_char_def by (simp only: nth_eq_iff_index_eq)
qed

lemma text_of_nat_nonempty: "text_of_nat n \<noteq> []"
  by (subst text_of_nat.simps) simp

lemma text_of_nat_inj: "text_of_nat m = text_of_nat n \<Longrightarrow> m = n"
proof (induction m arbitrary: n rule: text_of_nat.induct)
  case (1 m)
  show ?case
  proof (cases "m < 10")
    case True
    then have m: "text_of_nat m = [digit_char m]"
      by (subst text_of_nat.simps) simp
    show ?thesis
    proof (cases "n < 10")
      case True
      then have "text_of_nat n = [digit_char n]"
        by (subst text_of_nat.simps) simp
      with m "1.prems" have "digit_char m = digit_char n" by simp
      with \<open>m < 10\<close> True show ?thesis by (rule digit_char_inj)
    next
      case False
      then have "text_of_nat n = text_of_nat (n div 10) @ [digit_char (n mod 10)]"
        by (subst text_of_nat.simps) simp
      with m "1.prems" have "text_of_nat (n div 10) = []" by simp
      then show ?thesis by (simp add: text_of_nat_nonempty)
    qed
  next
    case False
    then have m: "text_of_nat m = text_of_nat (m div 10) @ [digit_char (m mod 10)]"
      by (subst text_of_nat.simps) simp
    show ?thesis
    proof (cases "n < 10")
      case True
      then have "text_of_nat n = [digit_char n]"
        by (subst text_of_nat.simps) simp
      with m "1.prems" have "text_of_nat (m div 10) = []" by simp
      then show ?thesis by (simp add: text_of_nat_nonempty)
    next
      case n: False
      then have "text_of_nat n = text_of_nat (n div 10) @ [digit_char (n mod 10)]"
        by (subst text_of_nat.simps) simp
      with m "1.prems" have eq: "text_of_nat (m div 10) = text_of_nat (n div 10)"
        and dg: "digit_char (m mod 10) = digit_char (n mod 10)" by simp_all
      from "1.IH" [OF False eq] have q: "m div 10 = n div 10" .
      have r: "m mod 10 = n mod 10"
        by (rule digit_char_inj [OF _ _ dg]) simp_all
      from q r show ?thesis by (metis div_mult_mod_eq)
    qed
  qed
qed

lemma json_last_text_eq:
  "json_last_text path = Some (text_of_nat k) \<longleftrightarrow> path \<noteq> [] \<and> last path = k"
  by (auto simp: json_last_text_def dest: text_of_nat_inj)

lemma fst_left_join_as2: "fst ` set (left_join_as2 as2 r) = {r}"
  by (auto simp: left_join_as2_def Let_def image_iff filter_empty_conv)

lemma set_route_rows:
  "set (route_rows db T S)
     = {ra \<in> (\<Union>r\<in>set (ip_routes db). set (left_join_as2 (autonomous_systems db) r)).
          ir_created_at (fst ra) = T \<and> ir_snapshot_id (fst ra) = S}"
  by (auto simp: route_rows_def)

lemma fst_route_rows:
  "fst ` set (route_rows db T S)
     = {r \<in> set (ip_routes db). ir_created_at r = T \<and> ir_snapshot_id r = S}"
proof (intro set_eqI iffI)
  fix r assume "r \<in> fst ` set (route_rows db T S)"
  then obtain a where ra: "(r, a) \<in> set (route_rows db T S)" by force
  then obtain r' where r': "r' \<in> set (ip_routes db)"
      and j: "(r, a) \<in> set (left_join_as2 (autonomous_systems db) r')"
      and c: "ir_created_at r = T \<and> ir_snapshot_id r = S"
    by (auto simp: set_route_rows)
  from j have "r \<in> fst ` set (left_join_as2 (autonomous_systems db) r')" by force
  then have "r = r'" by (simp add: fst_left_join_as2)
  with r' c show "r \<in> {r \<in> set (ip_routes db). ir_created_at r = T \<and> ir_snapshot_id r = S}"
    by simp
next
  fix r assume "r \<in> {r \<in> set (ip_routes db). ir_created_at r = T \<and> ir_snapshot_id r = S}"
  then have r: "r \<in> set (ip_routes db)" and c: "ir_created_at r = T \<and> ir_snapshot_id r = S"
    by simp_all
  have "r \<in> fst ` set (left_join_as2 (autonomous_systems db) r)"
    by (simp add: fst_left_join_as2)
  then obtain a where "(r, a) \<in> set (left_join_as2 (autonomous_systems db) r)" by force
  with r c have "(r, a) \<in> set (route_rows db T S)" by (auto simp: set_route_rows)
  then show "r \<in> fst ` set (route_rows db T S)" by force
qed

lemma left_join_as2_unmatched:
  assumes "\<forall>a\<in>set as2. ir_path r \<noteq> [] \<longrightarrow> as_number a \<noteq> last (ir_path r)"
  shows "left_join_as2 as2 r = [(r, None)]"
proof -
  have "filter (\<lambda>a. json_last_text (ir_path r) = Some (text_of_nat (as_number a))) as2 = []"
    using assms by (auto simp: filter_empty_conv json_last_text_eq)
  then show ?thesis by (simp add: left_join_as2_def)
qed

lemma names_scheduler_remove:
  "mset (map se_name (scheduler_remove n reg)) = mset (map se_name reg) - {#n#}"
  by (induction reg) auto

lemma wipe_tasks_covered:
  "mset (map se_name reg) \<subseteq># mset (map se_name tasks) \<Longrightarrow> wipe_tasks tasks reg = []"
proof (induction tasks arbitrary: reg)
  case Nil
  then show ?case by simp
next
  case (Cons task tasks)
  have "mset (map se_name (scheduler_remove (se_name task) reg))
          = mset (map se_name reg) - {#se_name task#}"
    by (rule names_scheduler_remove)
  also have "\<dots> \<subseteq># mset (map se_name tasks)"
    using Cons.prems by (simp add: subset_eq_diff_conv)
  finally have "wipe_tasks tasks (scheduler_remove (se_name task) reg) = []"
    by (rule Cons.IH)
  then show ?case by simp
qed

lemma wipe_all: "wipe_tasks (scheduler_list reg) reg = []"
  by (rule wipe_tasks_covered) (simp add: scheduler_list_def)

lemma scheduler_add_fresh:
  "se_name e \<notin> se_name ` set reg \<Longrightarrow> scheduler_add policy e reg = Inr (reg @ [e])"
  by (simp add: scheduler_add_def)

lemma setup_schedule_ok:
  assumes "list_all2 (\<lambda>g ghm. fst ghm = g \<and> (\<exists>cfg. map_of gs g = Some cfg
              \<and> cfg ''hour'' = Some (fst (snd ghm)) \<and> cfg ''minutes'' = Some (snd (snd ghm)))
              \<and> 0 \<le> fst (snd ghm) \<and> fst (snd ghm) < 24
              \<and> 0 \<le> snd (snd ghm) \<and> snd (snd ghm) < 60)
            names sched"
    and "distinct names"
    and "\<forall>g\<in>set names. ''grab-'' @ g \<notin> se_name ` set reg"
  shows "setup_schedule policy gs names reg = (reg @ map spec_schedule_entry sched, Inr ())"
  using assms
proof (induction names sched arbitrary: reg rule: list_all2_induct)
  case Nil
  then show ?case by simp
next
  case (Cons g names ghm sched)
  obtain c h m where ghm: "ghm = (c, h, m)" by (cases ghm) auto
  from Cons.hyps(1) ghm obtain cfg where c: "c = g" and cfg: "map_of gs g = Some cfg"
    and h: "cfg ''hour'' = Some h" and m: "cfg ''minutes'' = Some m"
    and range: "0 \<le> h \<and> h < 24 \<and> 0 \<le> m \<and> m < 60" by auto
  have cron: "crontab h m = Inr \<lparr>cron_hour = h, cron_minute = m\<rparr>"
    using range by (simp add: crontab_def)
  let ?e = "\<lparr>se_name = ''grab-'' @ g, se_schedule = \<lparr>cron_hour = h, cron_minute = m\<rparr>,
             se_task = ''worker.grab_and_ingest'', se_args = [g]\<rparr>"
  have e: "spec_schedule_entry ghm = ?e" by (simp add: spec_schedule_entry_def ghm c)
  have fresh: "se_name ?e \<notin> se_name ` set reg" using Cons.prems(2) by simp
  have add: "scheduler_add policy ?e reg = Inr (reg @ [?e])"
    using fresh by (rule scheduler_add_fresh)
  have d: "distinct names" and notin: "g \<notin> set names" using Cons.prems(1) by simp_all
  have "\<forall>g'\<in>set names. ''grab-'' @ g' \<notin> se_name ` set (reg @ [?e])"
    using Cons.prems(2) notin by auto
  with d have "setup_schedule policy gs names (reg @ [?e])
                 = ((reg @ [?e]) @ map spec_schedule_entry sched, Inr ())"
    by (rule Cons.IH)
  then show ?case using add by (simp add: cfg h m cron e)
qed

lemma route_collectors_dict_Some:
  "fold (\<lambda>collector d. d(rc_id collector \<mapsto> rc_name collector)) cs d0 k = Some nm
   \<Longrightarrow> (\<exists>c\<in>set cs. rc_id c = k \<and> rc_name c = nm) \<or> d0 k = Some nm"
  by (induction cs arbitrary: d0) (fastforce split: if_splits)+

lemma route_collectors_dict_dom:
  "k \<in> rc_id ` set cs \<or> d0 k \<noteq> None
   \<Longrightarrow> fold (\<lambda>collector d. d(rc_id collector \<mapsto> rc_name collector)) cs d0 k \<noteq> None"
  by (induction cs arbitrary: d0) auto

lemma mem_collector_ids:
  "(i \<in> set (map rc_id (filter (\<lambda>c. rc_ixp_id c = k) cs)))
     = (\<exists>c\<in>set cs. rc_ixp_id c = k \<and> rc_id c = i)"
  by (induction cs) auto

lemma where_in_collector_ids:
  "filter (\<lambda>s. rs_route_collector_id s
                 \<in> set (map rc_id (filter (\<lambda>c. rc_ixp_id c = k) (route_collectors db))))
     (routing_snapshots db) = snapshots_of_exchange_point db k"
  unfolding snapshots_of_exchange_point_def by (simp only: mem_collector_ids)

lemma exchange_point_summary_ok:
  "\<exists>ep. exchange_point_summary db ixp = Inr ep
     \<and> ep_id ep = ixp_id ixp \<and> ep_name ep = ixp_name ixp
     \<and> ep_route_collectors ep
         = int (length (filter (\<lambda>c. rc_ixp_id c = ixp_id ixp) (route_collectors db)))
     \<and> (if snapshots_of_exchange_point db (ixp_id ixp) = []
        then ep_last_snapshot_date ep = None \<and> ep_last_snapshot_id ep = None
               \<and> ep_last_snapshot_collector_name ep = None
        else \<exists>s\<in>set (snapshots_of_exchange_point db (ixp_id ixp)).
               (\<forall>s'\<in>set (snapshots_of_exchange_point db (ixp_id ixp)).
                   rs_created_at s' \<le> rs_created_at s)
               \<and> ep_last_snapshot_date ep = Some (strftime_Ymd (rs_created_at s))
               \<and> ep_last_snapshot_id ep = Some (rs_id s)
               \<and> (\<exists>c\<in>set (route_collectors db).
                      rc_ixp_id c = ixp_id ixp \<and> rc_id c = rs_route_collector_id s
                      \<and> ep_last_snapshot_collector_name ep = Some (rc_name c)))"
proof -
  let ?k = "ixp_id ixp"
  let ?cs = "filter (\<lambda>c. rc_ixp_id c = ?k) (route_collectors db)"
  let ?dict = "fold (\<lambda>collector d. d(rc_id collector \<mapsto> rc_name collector)) ?cs Map.empty"
  let ?mine = "snapshots_of_exchange_point db ?k"
  let ?ep = "\<lparr>ep_id = ?k, ep_name = ixp_name ixp,
              ep_route_collectors = int (length (map rc_id ?cs)),
              ep_last_snapshot_date = None, ep_last_snapshot_id = None,
              ep_last_snapshot_collector_name = None\<rparr>"
  have unf: "exchange_point_summary db ixp =
      (case first_row (order_by_desc rs_created_at ?mine) of
         None \<Rightarrow> Inr ?ep
       | Some lu \<Rightarrow>
           (case ?dict (rs_route_collector_id lu) of
              None \<Rightarrow> Inl (KeyError ''route_collector_id'')
            | Some collector_name \<Rightarrow>
                Inr (?ep\<lparr>ep_last_snapshot_date := Some (strftime_Ymd (rs_created_at lu)),
                          ep_last_snapshot_id := Some (rs_id lu),
                          ep_last_snapshot_collector_name := Some collector_name\<rparr>)))"
    unfolding exchange_point_summary_def Let_def where_in_collector_ids ..
  show ?thesis
  proof (cases "first_row (order_by_desc rs_created_at ?mine)")
    case None
    then have "last_row rs_created_at ?mine = None" by (simp add: last_row_def)
    then have "?mine = []" by (simp add: last_row_None)
    with None unf show ?thesis by simp
  next
    case (Some lu)
    then have mx: "lu \<in> set ?mine \<and> (\<forall>x\<in>set ?mine. rs_created_at x \<le> rs_created_at lu)"
      by (rule first_row_sorted_max)
    then have ne: "?mine \<noteq> []" by auto
    from mx have "\<exists>c\<in>set (route_collectors db).
                    rc_ixp_id c = ?k \<and> rc_id c = rs_route_collector_id lu"
      by (simp add: snapshots_of_exchange_point_def)
    then have "rs_route_collector_id lu \<in> set (map rc_id ?cs)"
      by (simp only: mem_collector_ids)
    then have "rs_route_collector_id lu \<in> rc_id ` set ?cs"
      by (simp only: set_map)
    then have "?dict (rs_route_collector_id lu) \<noteq> None"
      by (intro route_collectors_dict_dom disjI1)
    then obtain nm where nm: "?dict (rs_route_collector_id lu) = Some nm" by auto
    then have "\<exists>c\<in>set ?cs. rc_id c = rs_route_collector_id lu \<and> rc_name c = nm"
      using route_collectors_dict_Some [OF nm] by simp
    then obtain c where c: "c \<in> set (route_collectors db)" "rc_ixp_id c = ?k"
        "rc_id c = rs_route_collector_id lu" "rc_name c = nm" by auto
    have res: "exchange_point_summary db ixp =
                Inr (?ep\<lparr>ep_last_snapshot_date := Some (strftime_Ymd (rs_created_at lu)),
                          ep_last_snapshot_id := Some (rs_id lu),
                          ep_last_snapshot_collector_name := Some nm\<rparr>)"
      using unf Some nm by simp
    let ?ep' = "?ep\<lparr>ep_last_snapshot_date := Some (strftime_Ymd (rs_created_at lu)),
                     ep_last_snapshot_id := Some (rs_id lu),
                     ep_last_snapshot_collector_name := Some nm\<rparr>"
    have row: "ep_id ?ep' = ?k \<and> ep_name ?ep' = ixp_name ixp
                 \<and> ep_route_collectors ?ep' = int (length ?cs)"
      by simp
    have "\<exists>c\<in>set (route_collectors db).
            rc_ixp_id c = ?k \<and> rc_id c = rs_route_collector_id lu
            \<and> ep_last_snapshot_collector_name ?ep' = Some (rc_name c)"
      using c by (intro bexI [of _ c]) simp_all
    with mx have body: "(\<forall>s'\<in>set ?mine. rs_created_at s' \<le> rs_created_at lu)
               \<and> ep_last_snapshot_date ?ep' = Some (strftime_Ymd (rs_created_at lu))
               \<and> ep_last_snapshot_id ?ep' = Some (rs_id lu)
               \<and> (\<exists>c\<in>set (route_collectors db).
                      rc_ixp_id c = ?k \<and> rc_id c = rs_route_collector_id lu
                      \<and> ep_last_snapshot_collector_name ?ep' = Some (rc_name c))"
      by simp
    have lu_mem: "lu \<in> set ?mine" using mx by simp
    have last: "\<exists>s\<in>set ?mine.
               (\<forall>s'\<in>set ?mine. rs_created_at s' \<le> rs_created_at s)
               \<and> ep_last_snapshot_date ?ep' = Some (strftime_Ymd (rs_created_at s))
               \<and> ep_last_snapshot_id ?ep' = Some (rs_id s)
               \<and> (\<exists>c\<in>set (route_collectors db).
                      rc_ixp_id c = ?k \<and> rc_id c = rs_route_collector_id s
                      \<and> ep_last_snapshot_collector_name ?ep' = Some (rc_name c))"
      by (rule bexI, rule body, rule lu_mem)
    show ?thesis
      by (rule exI [of _ ?ep']) (simp only: res row last ne if_False simp_thms)
  qed
qed

lemma set_dict_set: "set (dict_set k v d) \<subseteq> insert (k, v) (set d)"
  by (induction d) (auto split: if_splits)

lemma map_fst_dict_set: "set (map fst (dict_set k v d)) = insert k (set (map fst d))"
  by (induction k v d rule: dict_set.induct) auto

lemma keys_dict_set: "fst ` set (dict_set k v d) = insert k (fst ` set d)"
  using map_fst_dict_set [of k v d] by (simp only: set_map)

lemma exchange_points_loop_ok:
  assumes "\<forall>ixp\<in>set ixps. \<exists>ep. exchange_point_summary db ixp = Inr ep \<and> P (ixp_id ixp) ep"
    and "\<forall>kv\<in>set acc. P (fst kv) (snd kv)"
  shows "\<exists>eps. exchange_points_loop db ixps acc = Inr eps
           \<and> fst ` set eps = fst ` set acc \<union> ixp_id ` set ixps
           \<and> (\<forall>kv\<in>set eps. P (fst kv) (snd kv))"
  using assms
proof (induction ixps arbitrary: acc)
  case Nil
  then show ?case by simp
next
  case (Cons ixp ixps)
  from Cons.prems(1) obtain ep where ep: "exchange_point_summary db ixp = Inr ep"
    and p: "P (ixp_id ixp) ep" by auto
  let ?acc = "dict_set (ixp_id ixp) ep acc"
  have "\<forall>kv\<in>set ?acc. P (fst kv) (snd kv)"
    using set_dict_set [of "ixp_id ixp" ep acc] Cons.prems(2) p by auto
  moreover have "\<forall>ixp\<in>set ixps. \<exists>ep. exchange_point_summary db ixp = Inr ep \<and> P (ixp_id ixp) ep"
    using Cons.prems(1) by simp
  ultimately obtain eps where eps: "exchange_points_loop db ixps ?acc = Inr eps"
    "fst ` set eps = fst ` set ?acc \<union> ixp_id ` set ixps"
    "\<forall>kv\<in>set eps. P (fst kv) (snd kv)"
    using Cons.IH [of ?acc] by blast
  have "exchange_points_loop db (ixp # ixps) acc = Inr eps" using ep eps(1) by simp
  moreover have "fst ` set eps = fst ` set acc \<union> ixp_id ` set (ixp # ixps)"
    using eps(2) by (simp add: keys_dict_set)
  ultimately show ?case using eps(3) by blast
qed

subsection \<open>The routes of a response\<close>

lemma route_statement_None:
  "route_statement db T S = None
     \<longleftrightarrow> {r \<in> set (ip_routes db). ir_created_at r = T \<and> ir_snapshot_id r = S} = {}"
proof -
  have "route_statement db T S = None \<longleftrightarrow> set (route_rows db T S) = {}"
    by (simp add: route_statement_def Let_def)
  also have "\<dots> \<longleftrightarrow> fst ` set (route_rows db T S) = {}" by simp
  finally show ?thesis by (simp only: fst_route_rows)
qed

lemma set_route_statement:
  "(case route_statement db T S of None \<Rightarrow> {} | Some rs \<Rightarrow> set rs)
     = select_route ` set (route_rows db T S)"
  by (simp add: route_statement_def Let_def)

lemma returned_routes_of_snapshot:
  "returned_routes (routes_of_snapshot db snapshot)
     = select_route ` set (route_rows db (rs_created_at snapshot) (rs_id snapshot))"
  by (simp add: returned_routes_def routes_of_snapshot_def set_route_statement)

lemma block_path_of_selected:
  "(\<lambda>ro. (ro_block ro, ro_path ro)) ` select_route ` A = (\<lambda>r. (ir_block r, ir_path r)) ` fst ` A"
  by (simp add: image_image select_route_def)

lemma returned_block_path:
  "(\<lambda>ro. (ro_block ro, ro_path ro)) ` returned_routes (routes_of_snapshot db snapshot)
     = (\<lambda>r. (ir_block r, ir_path r)) `
         {r \<in> set (ip_routes db).
            ir_created_at r = rs_created_at snapshot \<and> ir_snapshot_id r = rs_id snapshot}"
  by (simp only: returned_routes_of_snapshot block_path_of_selected fst_route_rows)

lemma left_join_as2_Some:
  assumes "(r, Some a) \<in> set (left_join_as2 as2 r')"
  shows "a \<in> set as2 \<and> ir_path r \<noteq> [] \<and> as_number a = last (ir_path r)"
proof -
  let ?ms = "filter (\<lambda>a. json_last_text (ir_path r') = Some (text_of_nat (as_number a))) as2"
  from assms have "fst (r, Some a) \<in> fst ` set (left_join_as2 as2 r')" by (rule imageI)
  then have r: "r = r'" by (simp add: fst_left_join_as2)
  from assms have "a \<in> set ?ms"
    by (auto simp: left_join_as2_def Let_def split: if_splits)
  then have "a \<in> set as2" and "json_last_text (ir_path r') = Some (text_of_nat (as_number a))"
    by simp_all
  then show ?thesis using r by (simp add: json_last_text_eq)
qed

lemma returned_columns:
  assumes "ro \<in> returned_routes (routes_of_snapshot db snapshot)"
  shows "ro_origin ro = (if ro_path ro = [] then None else Some (text_of_nat (last (ro_path ro))))
       \<and> (ro_name ro = None
          \<or> (\<exists>a\<in>set (autonomous_systems db).
                ro_name ro = Some (as_name a) \<and> ro_path ro \<noteq> []
                \<and> as_number a = last (ro_path ro)))"
proof -
  from assms obtain r a where ra: "(r, a) \<in> set (route_rows db (rs_created_at snapshot) (rs_id snapshot))"
    and ro: "ro = select_route (r, a)"
    by (auto simp: returned_routes_of_snapshot)
  have o: "ro_origin ro = (if ro_path ro = [] then None else Some (text_of_nat (last (ro_path ro))))"
    by (simp add: ro select_route_def json_last_text_def)
  show ?thesis
  proof (cases a)
    case None
    then show ?thesis using o by (simp add: ro select_route_def)
  next
    case (Some x)
    from ra obtain r' where "(r, a) \<in> set (left_join_as2 (autonomous_systems db) r')"
      by (auto simp: set_route_rows)
    then have "x \<in> set (autonomous_systems db) \<and> ir_path r \<noteq> [] \<and> as_number x = last (ir_path r)"
      unfolding Some by (rule left_join_as2_Some)
    then have "\<exists>a\<in>set (autonomous_systems db).
                ro_name ro = Some (as_name a) \<and> ro_path ro \<noteq> []
                \<and> as_number a = last (ro_path ro)"
      by (intro bexI [of _ x]) (simp_all add: ro select_route_def Some)
    with o show ?thesis by simp
  qed
qed

lemma latest_routes_Inr:
  "snd (get_snapshot_routes_latest db n) = Inr response
   \<Longrightarrow> \<exists>s\<in>set (routing_snapshots db). response = routes_of_snapshot db s"
proof -
  assume a: "snd (get_snapshot_routes_latest db n) = Inr response"
  then obtain c where c: "route_collector_by_name db n = Some c"
    by (cases "route_collector_by_name db n") (auto simp: get_snapshot_routes_latest_def)
  let ?mine = "filter (\<lambda>s. rs_route_collector_id s = rc_id c) (routing_snapshots db)"
  from a c obtain s where s: "last_row rs_id ?mine = Some s"
    by (cases "last_row rs_id ?mine") (auto simp: get_snapshot_routes_latest_def)
  then have "s \<in> set ?mine"
    using first_row_sorted_max [of rs_id ?mine s] by (simp add: last_row_def)
  moreover have "response = routes_of_snapshot db s"
    using a c s by (simp add: get_snapshot_routes_latest_def)
  ultimately show ?thesis by auto
qed

lemma snapshot_routes_Inr:
  "snd (get_snapshot_routes db n sid) = Inr response
   \<Longrightarrow> \<exists>s\<in>set (routing_snapshots db). response = routes_of_snapshot db s"
proof -
  assume a: "snd (get_snapshot_routes db n sid) = Inr response"
  then obtain c where c: "route_collector_by_name db n = Some c"
    by (cases "route_collector_by_name db n") (auto simp: get_snapshot_routes_def)
  let ?q = "first_row (filter (\<lambda>s. rs_id s = sid) (routing_snapshots db))"
  from a c obtain s where s: "?q = Some s"
    by (cases ?q) (auto simp: get_snapshot_routes_def)
  then have "s \<in> set (routing_snapshots db)"
    using first_row_filter_Some [of "\<lambda>s. rs_id s = sid" "routing_snapshots db" s] by simp
  moreover have "response = routes_of_snapshot db s"
    using a c s by (simp add: get_snapshot_routes_def)
  ultimately show ?thesis by auto
qed

subsection \<open>Dates as text\<close>

lemma digit_char_mem: "d < 10 \<Longrightarrow> digit_char d \<in> set ''0123456789''"
  unfolding digit_char_def by (rule nth_mem) simp

lemma text_of_nat_digits: "set (text_of_nat n) \<subseteq> set ''0123456789''"
proof (induction n rule: text_of_nat.induct)
  case (1 n)
  show ?case
  proof (cases "n < 10")
    case True
    then have "text_of_nat n = [digit_char n]" by (subst text_of_nat.simps) simp
    then show ?thesis using digit_char_mem [OF True] by simp
  next
    case False
    then have "text_of_nat n = text_of_nat (n div 10) @ [digit_char (n mod 10)]"
      by (subst text_of_nat.simps) simp
    moreover have "digit_char (n mod 10) \<in> set ''0123456789''"
      by (rule digit_char_mem) simp
    ultimately show ?thesis using "1.IH" [OF False] by simp
  qed
qed

lemma dash_notin_text: "CHR ''-'' \<notin> set (text_of_nat n)"
  using text_of_nat_digits [of n] by auto

lemma dash_notin_zfill: "CHR ''-'' \<notin> set (zfill w (text_of_nat n))"
  using dash_notin_text [of n] by (auto simp: zfill_def)

lemma text_of_nat_0: "text_of_nat 0 = ''0''"
  by (subst text_of_nat.simps) (simp add: digit_char_def)

lemma text_of_nat_head:
  "n \<noteq> 0 \<Longrightarrow> \<exists>c cs. text_of_nat n = c # cs \<and> c \<noteq> CHR ''0''"
proof (induction n rule: text_of_nat.induct)
  case (1 n)
  show ?case
  proof (cases "n < 10")
    case True
    then have t: "text_of_nat n = [digit_char n]" by (subst text_of_nat.simps) simp
    have "digit_char n \<noteq> digit_char 0"
      using digit_char_inj [of n 0] True "1.prems" by auto
    then have "digit_char n \<noteq> CHR ''0''" by (simp add: digit_char_def)
    with t show ?thesis by simp
  next
    case False
    then have t: "text_of_nat n = text_of_nat (n div 10) @ [digit_char (n mod 10)]"
      by (subst text_of_nat.simps) simp
    from False have "n div 10 \<noteq> 0" by simp
    from "1.IH" [OF False this] obtain c cs
      where "text_of_nat (n div 10) = c # cs" "c \<noteq> CHR ''0''" by auto
    with t show ?thesis by simp
  qed
qed

lemma strip_zfill:
  "dropWhile (\<lambda>c. c = CHR ''0'') (zfill w (text_of_nat n))
     = (if n = 0 then [] else text_of_nat n)"
proof -
  have pad: "dropWhile (\<lambda>c. c = CHR ''0'') (zfill w (text_of_nat n))
               = dropWhile (\<lambda>c. c = CHR ''0'') (text_of_nat n)"
    unfolding zfill_def by (rule dropWhile_append2) simp
  show ?thesis
  proof (cases "n = 0")
    case True
    have "dropWhile (\<lambda>c. c = CHR ''0'') (text_of_nat n) = []"
      by (simp add: True text_of_nat_0)
    with pad have "dropWhile (\<lambda>c. c = CHR ''0'') (zfill w (text_of_nat n)) = []"
      by (simp only:)
    then show ?thesis using True by simp
  next
    case False
    then obtain c cs where "text_of_nat n = c # cs" "c \<noteq> CHR ''0''"
      using text_of_nat_head by blast
    then have "dropWhile (\<lambda>c. c = CHR ''0'') (text_of_nat n) = text_of_nat n" by simp
    then show ?thesis using pad False by simp
  qed
qed

lemma zfill_text_inj:
  assumes "zfill w (text_of_nat a) = zfill w (text_of_nat b)"
  shows "a = b"
proof -
  have "(if a = 0 then [] else text_of_nat a) = (if b = 0 then [] else text_of_nat b)"
    using arg_cong [OF assms, of "dropWhile (\<lambda>c. c = CHR ''0'')"]
    by (simp only: strip_zfill)
  then show ?thesis
    by (auto simp: text_of_nat_nonempty text_of_nat_nonempty [THEN not_sym]
        split: if_splits dest: text_of_nat_inj)
qed

lemma split_at_first:
  "x \<notin> set xs \<Longrightarrow> x \<notin> set xs' \<Longrightarrow> xs @ x # ys = xs' @ x # ys'
   \<Longrightarrow> xs = xs' \<and> ys = ys'"
proof (induction xs arbitrary: xs')
  case Nil
  then show ?case by (cases xs') auto
next
  case (Cons a xs)
  then show ?case by (cases xs') auto
qed

lemma strftime_Ymd_eq_iff: "strftime_Ymd a = strftime_Ymd b \<longleftrightarrow> fst a = fst b"
proof
  assume eq: "strftime_Ymd a = strftime_Ymd b"
  obtain y m d t where a: "a = ((y, m, d), t)" by (cases a) auto
  obtain y' m' d' t' where b: "b = ((y', m', d'), t')" by (cases b) auto
  from eq have e1: "text_of_nat y @ CHR ''-'' # (zfill 2 (text_of_nat m) @ CHR ''-'' # zfill 2 (text_of_nat d))
            = text_of_nat y' @ CHR ''-'' # (zfill 2 (text_of_nat m') @ CHR ''-'' # zfill 2 (text_of_nat d'))"
    by (simp add: strftime_Ymd_def a b)
  note s1 = split_at_first [OF dash_notin_text dash_notin_text e1]
  from s1 have y: "text_of_nat y = text_of_nat y'" by (rule conjunct1)
  from s1 have e2: "zfill 2 (text_of_nat m) @ CHR ''-'' # zfill 2 (text_of_nat d)
            = zfill 2 (text_of_nat m') @ CHR ''-'' # zfill 2 (text_of_nat d')"
    by (rule conjunct2)
  note s2 = split_at_first [OF dash_notin_zfill dash_notin_zfill e2]
  from s2 have m: "zfill 2 (text_of_nat m) = zfill 2 (text_of_nat m')" by (rule conjunct1)
  from s2 have d: "zfill 2 (text_of_nat d) = zfill 2 (text_of_nat d')" by (rule conjunct2)
  from text_of_nat_inj [OF y] zfill_text_inj [OF m] zfill_text_inj [OF d]
  show "fst a = fst b" by (simp add: a b)
next
  assume "fst a = fst b"
  then show "strftime_Ymd a = strftime_Ymd b"
    by (cases a, cases b) (simp add: strftime_Ymd_def)
qed

lemma summary_pins_date:
  assumes "date = Some (strftime_Ymd t)"
  shows "date = Some (text_of_nat (fst (fst t)) @ ''-''
                      @ zfill 2 (text_of_nat (fst (snd (fst t)))) @ ''-''
                      @ zfill 2 (text_of_nat (snd (snd (fst t)))))
       \<and> (\<forall>dt. (date = Some (strftime_Ymd dt)) = (fst dt = fst t))"
proof -
  have "strftime_Ymd t = text_of_nat (fst (fst t)) @ ''-''
                      @ zfill 2 (text_of_nat (fst (snd (fst t)))) @ ''-''
                      @ zfill 2 (text_of_nat (snd (snd (fst t))))"
    by (simp add: strftime_Ymd_def split: prod.splits)
  moreover have "\<forall>dt. (date = Some (strftime_Ymd dt)) = (fst dt = fst t)"
    using strftime_Ymd_eq_iff [of t] by (auto simp: assms)
  ultimately show ?thesis using assms by simp
qed

lemma exchange_point_summary_pinned:
  "\<exists>ep. exchange_point_summary db ixp = Inr ep
     \<and> ep_id ep = ixp_id ixp \<and> ep_name ep = ixp_name ixp
     \<and> ep_route_collectors ep
         = int (length (filter (\<lambda>c. rc_ixp_id c = ixp_id ixp) (route_collectors db)))
     \<and> (if snapshots_of_exchange_point db (ixp_id ixp) = []
        then ep_last_snapshot_date ep = None \<and> ep_last_snapshot_id ep = None
               \<and> ep_last_snapshot_collector_name ep = None
        else \<exists>s\<in>set (snapshots_of_exchange_point db (ixp_id ixp)).
               (\<forall>s'\<in>set (snapshots_of_exchange_point db (ixp_id ixp)).
                        rs_created_at s' \<le> rs_created_at s)
                    \<and> ep_last_snapshot_id ep = Some (rs_id s)
                    \<and> ep_last_snapshot_date ep
                        = Some (text_of_nat (fst (fst (rs_created_at s))) @ ''-''
                                @ zfill 2 (text_of_nat (fst (snd (fst (rs_created_at s))))) @ ''-''
                                @ zfill 2 (text_of_nat (snd (snd (fst (rs_created_at s))))))
                    \<and> (\<forall>dt. (ep_last_snapshot_date ep = Some (strftime_Ymd dt))
                              = (fst dt = fst (rs_created_at s)))
                    \<and> (\<exists>c\<in>set (route_collectors db).
                           rc_ixp_id c = (ixp_id ixp) \<and> rc_id c = rs_route_collector_id s
                           \<and> ep_last_snapshot_collector_name ep = Some (rc_name c)))"
proof -
  from exchange_point_summary_ok [of db ixp] obtain ep
    where ep: "exchange_point_summary db ixp = Inr ep"
      and row: "ep_id ep = ixp_id ixp" "ep_name ep = ixp_name ixp"
        "ep_route_collectors ep
           = int (length (filter (\<lambda>c. rc_ixp_id c = ixp_id ixp) (route_collectors db)))"
      and last: "if snapshots_of_exchange_point db (ixp_id ixp) = []
        then ep_last_snapshot_date ep = None \<and> ep_last_snapshot_id ep = None
               \<and> ep_last_snapshot_collector_name ep = None
        else \<exists>s\<in>set (snapshots_of_exchange_point db (ixp_id ixp)).
               (\<forall>s'\<in>set (snapshots_of_exchange_point db (ixp_id ixp)).
                   rs_created_at s' \<le> rs_created_at s)
               \<and> ep_last_snapshot_date ep = Some (strftime_Ymd (rs_created_at s))
               \<and> ep_last_snapshot_id ep = Some (rs_id s)
               \<and> (\<exists>c\<in>set (route_collectors db).
                      rc_ixp_id c = ixp_id ixp \<and> rc_id c = rs_route_collector_id s
                      \<and> ep_last_snapshot_collector_name ep = Some (rc_name c))"
    by blast
  have last': "if snapshots_of_exchange_point db (ixp_id ixp) = []
        then ep_last_snapshot_date ep = None \<and> ep_last_snapshot_id ep = None
               \<and> ep_last_snapshot_collector_name ep = None
        else \<exists>s\<in>set (snapshots_of_exchange_point db (ixp_id ixp)).
               (\<forall>s'\<in>set (snapshots_of_exchange_point db (ixp_id ixp)).
                        rs_created_at s' \<le> rs_created_at s)
                    \<and> ep_last_snapshot_id ep = Some (rs_id s)
                    \<and> ep_last_snapshot_date ep
                        = Some (text_of_nat (fst (fst (rs_created_at s))) @ ''-''
                                @ zfill 2 (text_of_nat (fst (snd (fst (rs_created_at s))))) @ ''-''
                                @ zfill 2 (text_of_nat (snd (snd (fst (rs_created_at s))))))
                    \<and> (\<forall>dt. (ep_last_snapshot_date ep = Some (strftime_Ymd dt))
                              = (fst dt = fst (rs_created_at s)))
                    \<and> (\<exists>c\<in>set (route_collectors db).
                           rc_ixp_id c = (ixp_id ixp) \<and> rc_id c = rs_route_collector_id s
                           \<and> ep_last_snapshot_collector_name ep = Some (rc_name c))"
  proof (cases "snapshots_of_exchange_point db (ixp_id ixp) = []")
    case True
    with last show ?thesis by simp
  next
    case False
    with last obtain s where s: "s \<in> set (snapshots_of_exchange_point db (ixp_id ixp))"
      and mx: "\<forall>s'\<in>set (snapshots_of_exchange_point db (ixp_id ixp)).
                   rs_created_at s' \<le> rs_created_at s"
      and dt: "ep_last_snapshot_date ep = Some (strftime_Ymd (rs_created_at s))"
      and sid: "ep_last_snapshot_id ep = Some (rs_id s)"
      and nm: "\<exists>c\<in>set (route_collectors db).
                      rc_ixp_id c = ixp_id ixp \<and> rc_id c = rs_route_collector_id s
                      \<and> ep_last_snapshot_collector_name ep = Some (rc_name c)"
      by auto
    note pin = summary_pins_date [OF dt]
    have b: "(\<forall>s'\<in>set (snapshots_of_exchange_point db (ixp_id ixp)).
                        rs_created_at s' \<le> rs_created_at s)
                    \<and> ep_last_snapshot_id ep = Some (rs_id s)
                    \<and> ep_last_snapshot_date ep
                        = Some (text_of_nat (fst (fst (rs_created_at s))) @ ''-''
                                @ zfill 2 (text_of_nat (fst (snd (fst (rs_created_at s))))) @ ''-''
                                @ zfill 2 (text_of_nat (snd (snd (fst (rs_created_at s))))))
                    \<and> (\<forall>dt. (ep_last_snapshot_date ep = Some (strftime_Ymd dt))
                              = (fst dt = fst (rs_created_at s)))
                    \<and> (\<exists>c\<in>set (route_collectors db).
                           rc_ixp_id c = (ixp_id ixp) \<and> rc_id c = rs_route_collector_id s
                           \<and> ep_last_snapshot_collector_name ep = Some (rc_name c))"
      by (intro conjI mx sid nm pin [THEN conjunct1] pin [THEN conjunct2])
    have "\<exists>s\<in>set (snapshots_of_exchange_point db (ixp_id ixp)).
               (\<forall>s'\<in>set (snapshots_of_exchange_point db (ixp_id ixp)).
                        rs_created_at s' \<le> rs_created_at s)
                    \<and> ep_last_snapshot_id ep = Some (rs_id s)
                    \<and> ep_last_snapshot_date ep
                        = Some (text_of_nat (fst (fst (rs_created_at s))) @ ''-''
                                @ zfill 2 (text_of_nat (fst (snd (fst (rs_created_at s))))) @ ''-''
                                @ zfill 2 (text_of_nat (snd (snd (fst (rs_created_at s))))))
                    \<and> (\<forall>dt. (ep_last_snapshot_date ep = Some (strftime_Ymd dt))
                              = (fst dt = fst (rs_created_at s)))
                    \<and> (\<exists>c\<in>set (route_collectors db).
                           rc_ixp_id c = (ixp_id ixp) \<and> rc_id c = rs_route_collector_id s
                           \<and> ep_last_snapshot_collector_name ep = Some (rc_name c))"
      by (rule bexI, rule b, rule s)
    with False show ?thesis by (simp only: if_False)
  qed
  from ep row last' show ?thesis by (intro exI [of _ ep] conjI)
qed

subsection \<open>The sample store\<close>

lemma example_db_tables:
  "internet_exchange_points example_db =
     [\<lparr>ixp_id = 1, ixp_name = ''AMS-IX''\<rparr>, \<lparr>ixp_id = 2, ixp_name = ''DE-CIX''\<rparr>,
      \<lparr>ixp_id = 3, ixp_name = ''LINX''\<rparr>]"
  "route_collectors example_db =
     [\<lparr>rc_id = 1, rc_name = ''ams-rc1'', rc_ixp_id = 1\<rparr>,
      \<lparr>rc_id = 2, rc_name = ''ams-rc2'', rc_ixp_id = 1\<rparr>,
      \<lparr>rc_id = 3, rc_name = ''dec-rc1'', rc_ixp_id = 2\<rparr>]"
  "routing_snapshots example_db =
     [\<lparr>rs_id = 10, rs_route_collector_id = 1,
       rs_created_at = ((2024, 3, 9), (2, 0, 0, 0)), rs_status = ''parsed''\<rparr>,
      \<lparr>rs_id = 11, rs_route_collector_id = 1,
       rs_created_at = ((2024, 3, 10), (2, 0, 0, 0)), rs_status = ''parsed''\<rparr>,
      \<lparr>rs_id = 12, rs_route_collector_id = 1,
       rs_created_at = ((2024, 3, 11), (2, 0, 0, 0)), rs_status = ''pending''\<rparr>,
      \<lparr>rs_id = 13, rs_route_collector_id = 2,
       rs_created_at = ((2024, 3, 11), (2, 0, 0, 0)), rs_status = ''parsed''\<rparr>,
      \<lparr>rs_id = 14, rs_route_collector_id = 3,
       rs_created_at = ((2023, 12, 5), (3, 15, 0, 0)), rs_status = ''failed''\<rparr>]"
  "ip_routes example_db =
     [\<lparr>ir_block = ''10.0.0.0/8'', ir_path = [64500, 64501], ir_snapshot_id = 12,
       ir_created_at = ((2024, 3, 11), (2, 0, 0, 0))\<rparr>,
      \<lparr>ir_block = ''192.0.2.0/24'', ir_path = [64500, 64999], ir_snapshot_id = 12,
       ir_created_at = ((2024, 3, 11), (2, 0, 0, 0))\<rparr>,
      \<lparr>ir_block = ''198.51.100.0/24'', ir_path = [64502], ir_snapshot_id = 13,
       ir_created_at = ((2024, 3, 11), (2, 0, 0, 0))\<rparr>,
      \<lparr>ir_block = ''203.0.113.0/24'', ir_path = [], ir_snapshot_id = 11,
       ir_created_at = ((2024, 3, 10), (2, 0, 0, 0))\<rparr>]"
  "autonomous_systems example_db = [\<lparr>as_number = 64501, as_name = ''Example Net''\<rparr>]"
  by (simp_all add: example_db_def)

lemma example_collectors_by_name:
  "route_collector_by_name example_db ''ams-rc1''
     = Some \<lparr>rc_id = 1, rc_name = ''ams-rc1'', rc_ixp_id = 1\<rparr>"
  "route_collector_by_name example_db ''ams-rc2''
     = Some \<lparr>rc_id = 2, rc_name = ''ams-rc2'', rc_ixp_id = 1\<rparr>"
  "route_collector_by_name example_db ''dec-rc1''
     = Some \<lparr>rc_id = 3, rc_name = ''dec-rc1'', rc_ixp_id = 2\<rparr>"
  by (simp_all add: route_collector_by_name_def first_row_def example_db_tables)

lemma example_routes_12:
  "route_statement example_db ((2024, 3, 11), (2, 0, 0, 0)) 12
     = Some [\<lparr>ro_block = ''10.0.0.0/8'', ro_path = [64500, 64501],
              ro_origin = Some ''64501'', ro_name = Some ''Example Net''\<rparr>,
             \<lparr>ro_block = ''192.0.2.0/24'', ro_path = [64500, 64999],
              ro_origin = Some ''64999'', ro_name = None\<rparr>]"
  by (simp add: route_statement_def route_rows_def left_join_as2_def select_route_def
      json_last_text_def text_of_nat.simps digit_char_def example_db_tables)

lemma example_routes_13:
  "route_statement example_db ((2024, 3, 11), (2, 0, 0, 0)) 13
     = Some [\<lparr>ro_block = ''198.51.100.0/24'', ro_path = [64502],
              ro_origin = Some ''64502'', ro_name = None\<rparr>]"
  by (simp add: route_statement_def route_rows_def left_join_as2_def select_route_def
      json_last_text_def text_of_nat.simps digit_char_def example_db_tables)

lemma example_routes_10:
  "route_statement example_db ((2024, 3, 9), (2, 0, 0, 0)) 10 = None"
  by (simp add: route_statement_def route_rows_def left_join_as2_def select_route_def
      json_last_text_def text_of_nat.simps digit_char_def example_db_tables)

lemma example_exchange_points:
  "exchange_points_index example_db
     = Inr [(1, \<lparr>ep_id = 1, ep_name = ''AMS-IX'', ep_route_collectors = 2,
                 ep_last_snapshot_date = Some ''2024-03-11'',
                 ep_last_snapshot_id = Some 12,
                 ep_last_snapshot_collector_name = Some ''ams-rc1''\<rparr>),
            (2, \<lparr>ep_id = 2, ep_name = ''DE-CIX'', ep_route_collectors = 1,
                 ep_last_snapshot_date = Some ''2023-12-05'',
                 ep_last_snapshot_id = Some 14,
                 ep_last_snapshot_collector_name = Some ''dec-rc1''\<rparr>),
            (3, \<lparr>ep_id = 3, ep_name = ''LINX'', ep_route_collectors = 0,
                 ep_last_snapshot_date = None, ep_last_snapshot_id = None,
                 ep_last_snapshot_collector_name = None\<rparr>)]"
  by (simp add: exchange_points_index_def exchange_point_summary_def order_by_desc_def
      first_row_def strftime_Ymd_def zfill_def text_of_nat.simps digit_char_def
      example_db_tables)

section \<open>Statistics are independent counts\<close>

text \<open>
  Claim C9. \<^verbatim>\<open>get_database_statistics\<close> returns four non-negative integers: the
  numbers of rows of \<^verbatim>\<open>route_collectors\<close>, \<^verbatim>\<open>internet_exchange_points\<close>,
  \<^verbatim>\<open>routing_snapshots\<close> and \<^verbatim>\<open>autonomous_systems\<close>. After one more route collector
  is inserted into the store, \<^verbatim>\<open>route_collector_count\<close> is larger by exactly one and
  the other three counts are what they were.
\<close>

theorem statistics_count_collectors:
  "route_collector_count (get_database_statistics db) = int (length (route_collectors db))
   \<and> ixp_count (get_database_statistics db) = int (length (internet_exchange_points db))
   \<and> snapshots_count (get_database_statistics db) = int (length (routing_snapshots db))
   \<and> st_autonomous_systems (get_database_statistics db) = int (length (autonomous_systems db))
   \<and> 0 \<le> route_collector_count (get_database_statistics db)
   \<and> 0 \<le> ixp_count (get_database_statistics db)
   \<and> 0 \<le> snapshots_count (get_database_statistics db)
   \<and> 0 \<le> st_autonomous_systems (get_database_statistics db)
   \<and> get_database_statistics (db\<lparr>route_collectors := route_collectors db @ [c]\<rparr>)
       = (get_database_statistics db)
           \<lparr>route_collector_count := route_collector_count (get_database_statistics db) + 1\<rparr>"
  by (simp add: get_database_statistics_def count_rows_def)

section \<open>Listing the snapshots of a collector\<close>

text \<open>
  Claim C10. When the name resolves to a collector that has no snapshot with status
  \<^verbatim>\<open>parsed\<close>, \<^verbatim>\<open>get_route_collector_snapshots\<close> returns the empty sequence, not an
  error.
\<close>

theorem list_snapshots_empty_history:
  assumes "route_collector_by_name db n = Some c"
    and "\<forall>s\<in>set (routing_snapshots db).
           rs_route_collector_id s = rc_id c \<longrightarrow> rs_status s \<noteq> ''parsed''"
  shows "snd (get_route_collector_snapshots db n) = Inr []"
proof -
  have "filter (\<lambda>s. rs_route_collector_id s = rc_id c \<and> rs_status s = ''parsed'')
          (routing_snapshots db) = []"
    using assms(2) by (simp add: filter_empty_conv)
  then show ?thesis
    using assms(1) by (simp add: get_route_collector_snapshots_def order_by_desc_def)
qed

theorem list_snapshots_empty_history_witness:
  "route_collector_by_name example_db ''dec-rc1''
     = Some \<lparr>rc_id = 3, rc_name = ''dec-rc1'', rc_ixp_id = 2\<rparr>
   \<and> snd (get_route_collector_snapshots example_db ''dec-rc1'') = Inr []"
proof -
  have h1: "route_collector_by_name example_db ''dec-rc1''
              = Some \<lparr>rc_id = 3, rc_name = ''dec-rc1'', rc_ixp_id = 2\<rparr>"
    by (rule example_collectors_by_name)
  have h2: "\<forall>s\<in>set (routing_snapshots example_db).
              rs_route_collector_id s = rc_id \<lparr>rc_id = 3, rc_name = ''dec-rc1'', rc_ixp_id = 2\<rparr>
              \<longrightarrow> rs_status s \<noteq> ''parsed''"
    by (simp add: example_db_tables)
  show ?thesis using h1 list_snapshots_empty_history [OF h1 h2] by simp
qed



section \<open>Unknown collectors\<close>

text \<open>
  Claim C6. When no collector has the given name, each of the three per-collector
  endpoints fails with the 404 error \<^verbatim>\<open>Route Collector not found\<close>, and the only
  query it has run is the lookup in \<^verbatim>\<open>route_collectors\<close>: no snapshot or route
  query precedes the failure.
\<close>

theorem unknown_collector_not_found:
  assumes "\<forall>c\<in>set (route_collectors db). rc_name c \<noteq> n"
  shows "get_route_collector_snapshots db n
           = ([Table_query ''route_collectors''],
              Inl (HTTPException 404 ''Route Collector not found''))
       \<and> get_snapshot_routes_latest db n
           = ([Table_query ''route_collectors''],
              Inl (HTTPException 404 ''Route Collector not found''))
       \<and> get_snapshot_routes db n snapshot_id
           = ([Table_query ''route_collectors''],
              Inl (HTTPException 404 ''Route Collector not found''))"
proof -
  have "route_collector_by_name db n = None"
    using assms by (simp add: route_collector_by_name_None)
  then show ?thesis
    by (simp add: get_route_collector_snapshots_def get_snapshot_routes_latest_def
        get_snapshot_routes_def)
qed

theorem unknown_collector_not_found_witness:
  "get_route_collector_snapshots example_db ''lon-rc9''
           = ([Table_query ''route_collectors''],
              Inl (HTTPException 404 ''Route Collector not found''))
       \<and> get_snapshot_routes_latest example_db ''lon-rc9''
           = ([Table_query ''route_collectors''],
              Inl (HTTPException 404 ''Route Collector not found''))
       \<and> get_snapshot_routes example_db ''lon-rc9'' 13
           = ([Table_query ''route_collectors''],
              Inl (HTTPException 404 ''Route Collector not found''))"
proof -
  have h: "\<forall>c\<in>set (route_collectors example_db). rc_name c \<noteq> ''lon-rc9''"
    by (simp add: example_db_tables)
  show ?thesis by (rule unknown_collector_not_found [OF h])
qed

section \<open>The latest snapshot\<close>



section \<open>The route statement is exact\<close>

text \<open>
  Claim C1. For every snapshot, the routes the route statement returns are, by block
  and path, exactly the rows of \<^verbatim>\<open>ip_routes\<close> whose \<^verbatim>\<open>created_at\<close> and
  \<^verbatim>\<open>snapshot_id\<close> are the snapshot's (the response holds \<^verbatim>\<open>None\<close> exactly when
  there is no such row): a row of another snapshot is never among them, also when it
  has the same \<^verbatim>\<open>created_at\<close>, as snapshot 13's row has in the sample store. Each
  returned route has the last element of its path as origin and, as name, nothing or
  the name of an autonomous system with that number. Both route endpoints answer with
  this response, built for a snapshot of the store whose \<^verbatim>\<open>created_at\<close> and \<^verbatim>\<open>id\<close>
  are the metadata.
\<close>

theorem route_fetch_exact:
  "(\<lambda>ro. (ro_block ro, ro_path ro)) ` returned_routes (routes_of_snapshot db snapshot)
     = (\<lambda>r. (ir_block r, ir_path r)) `
         {r \<in> set (ip_routes db).
            ir_created_at r = rs_created_at snapshot \<and> ir_snapshot_id r = rs_id snapshot}
   \<and> (routes (routes_of_snapshot db snapshot) = None)
     = ({r \<in> set (ip_routes db).
           ir_created_at r = rs_created_at snapshot \<and> ir_snapshot_id r = rs_id snapshot} = {})
   \<and> returned_routes (routes_of_snapshot db snapshot)
     = select_route ` set (route_rows db (rs_created_at snapshot) (rs_id snapshot))
   \<and> fst ` set (route_rows db (rs_created_at snapshot) (rs_id snapshot))
     = {r \<in> set (ip_routes db).
          ir_created_at r = rs_created_at snapshot \<and> ir_snapshot_id r = rs_id snapshot}
   \<and> (\<forall>ro\<in>returned_routes (routes_of_snapshot db snapshot).
         ro_origin ro = (if ro_path ro = [] then None else Some (text_of_nat (last (ro_path ro))))
         \<and> (ro_name ro = None
            \<or> (\<exists>a\<in>set (autonomous_systems db).
                  ro_name ro = Some (as_name a) \<and> ro_path ro \<noteq> []
                  \<and> as_number a = last (ro_path ro))))
   \<and> (\<forall>response.
         snd (get_snapshot_routes_latest db n) = Inr response
           \<or> snd (get_snapshot_routes db n snapshot_id) = Inr response
         \<longrightarrow> (\<exists>s\<in>set (routing_snapshots db).
                md_created_at (metadata response) = rs_created_at s
                \<and> md_snapshot_id (metadata response) = rs_id s
                \<and> response = routes_of_snapshot db s))"
proof -
  have ends: "\<forall>response.
         snd (get_snapshot_routes_latest db n) = Inr response
           \<or> snd (get_snapshot_routes db n snapshot_id) = Inr response
         \<longrightarrow> (\<exists>s\<in>set (routing_snapshots db).
                md_created_at (metadata response) = rs_created_at s
                \<and> md_snapshot_id (metadata response) = rs_id s
                \<and> response = routes_of_snapshot db s)"
  proof (intro allI impI)
    fix response
    assume "snd (get_snapshot_routes_latest db n) = Inr response
              \<or> snd (get_snapshot_routes db n snapshot_id) = Inr response"
    then obtain s where s: "s \<in> set (routing_snapshots db)" "response = routes_of_snapshot db s"
      using latest_routes_Inr [of db n response] snapshot_routes_Inr [of db n snapshot_id response]
      by blast
    have "md_created_at (metadata response) = rs_created_at s
            \<and> md_snapshot_id (metadata response) = rs_id s"
      by (simp add: s(2) routes_of_snapshot_def)
    with s show "\<exists>s\<in>set (routing_snapshots db).
                md_created_at (metadata response) = rs_created_at s
                \<and> md_snapshot_id (metadata response) = rs_id s
                \<and> response = routes_of_snapshot db s"
      by blast
  qed
  have none: "(routes (routes_of_snapshot db snapshot) = None)
     = ({r \<in> set (ip_routes db).
           ir_created_at r = rs_created_at snapshot \<and> ir_snapshot_id r = rs_id snapshot} = {})"
    by (simp add: routes_of_snapshot_def route_statement_None)
  have cols: "\<forall>ro\<in>returned_routes (routes_of_snapshot db snapshot).
         ro_origin ro = (if ro_path ro = [] then None else Some (text_of_nat (last (ro_path ro))))
         \<and> (ro_name ro = None
            \<or> (\<exists>a\<in>set (autonomous_systems db).
                  ro_name ro = Some (as_name a) \<and> ro_path ro \<noteq> []
                  \<and> as_number a = last (ro_path ro)))"
    by (intro ballI returned_columns)
  show ?thesis
    by (intro conjI returned_block_path none returned_routes_of_snapshot fst_route_rows cols ends)
qed

theorem route_fetch_exact_witness:
  "routes (routes_of_snapshot example_db
       \<lparr>rs_id = 12, rs_route_collector_id = 1,
        rs_created_at = ((2024, 3, 11), (2, 0, 0, 0)), rs_status = ''pending''\<rparr>)
     = Some [\<lparr>ro_block = ''10.0.0.0/8'', ro_path = [64500, 64501],
              ro_origin = Some ''64501'', ro_name = Some ''Example Net''\<rparr>,
             \<lparr>ro_block = ''192.0.2.0/24'', ro_path = [64500, 64999],
              ro_origin = Some ''64999'', ro_name = None\<rparr>]
   \<and> routes (routes_of_snapshot example_db
       \<lparr>rs_id = 10, rs_route_collector_id = 1,
        rs_created_at = ((2024, 3, 9), (2, 0, 0, 0)), rs_status = ''parsed''\<rparr>) = None
   \<and> (\<lambda>ro. (ro_block ro, ro_path ro)) ` returned_routes (routes_of_snapshot example_db
         \<lparr>rs_id = 12, rs_route_collector_id = 1,
          rs_created_at = ((2024, 3, 11), (2, 0, 0, 0)), rs_status = ''pending''\<rparr>)
     = (\<lambda>r. (ir_block r, ir_path r)) `
         {r \<in> set (ip_routes example_db).
            ir_created_at r = ((2024, 3, 11), (2, 0, 0, 0)) \<and> ir_snapshot_id r = 12}"
proof -
  let ?s12 = "\<lparr>rs_id = 12, rs_route_collector_id = 1,
        rs_created_at = ((2024, 3, 11), (2, 0, 0, 0)), rs_status = ''pending''\<rparr>"
  have a: "routes (routes_of_snapshot example_db ?s12)
     = Some [\<lparr>ro_block = ''10.0.0.0/8'', ro_path = [64500, 64501],
              ro_origin = Some ''64501'', ro_name = Some ''Example Net''\<rparr>,
             \<lparr>ro_block = ''192.0.2.0/24'', ro_path = [64500, 64999],
              ro_origin = Some ''64999'', ro_name = None\<rparr>]"
    by (simp add: routes_of_snapshot_def example_routes_12)
  have b: "routes (routes_of_snapshot example_db
       \<lparr>rs_id = 10, rs_route_collector_id = 1,
        rs_created_at = ((2024, 3, 9), (2, 0, 0, 0)), rs_status = ''parsed''\<rparr>) = None"
    by (simp add: routes_of_snapshot_def example_routes_10)
  have c: "(\<lambda>ro. (ro_block ro, ro_path ro)) ` returned_routes (routes_of_snapshot example_db ?s12)
     = (\<lambda>r. (ir_block r, ir_path r)) `
         {r \<in> set (ip_routes example_db).
            ir_created_at r = ((2024, 3, 11), (2, 0, 0, 0)) \<and> ir_snapshot_id r = 12}"
    using route_fetch_exact [of example_db ?s12, THEN conjunct1] by simp
  from a b c show ?thesis by (intro conjI)
qed

text \<open>
  Claim C7. A route row of the snapshot whose origin AS (the last element of its path)
  is the number of no autonomous system is returned, with a null name, and every
  joined row it gives has a null name; so is a row whose path is empty.
\<close>

theorem unmatched_origin_null_name:
  assumes "r \<in> set (ip_routes db)"
    and "ir_created_at r = rs_created_at snapshot" and "ir_snapshot_id r = rs_id snapshot"
    and "\<forall>a\<in>set (autonomous_systems db).
           ir_path r \<noteq> [] \<longrightarrow> as_number a \<noteq> last (ir_path r)"
  shows "(\<exists>rs. routes (routes_of_snapshot db snapshot) = Some rs
            \<and> \<lparr>ro_block = ir_block r, ro_path = ir_path r,
                ro_origin = json_last_text (ir_path r), ro_name = None\<rparr> \<in> set rs)
       \<and> (\<forall>ra\<in>set (route_rows db (rs_created_at snapshot) (rs_id snapshot)).
             fst ra = r \<longrightarrow> snd ra = None)"
proof -
  let ?T = "rs_created_at snapshot" and ?S = "rs_id snapshot"
  have j: "left_join_as2 (autonomous_systems db) r = [(r, None)]"
    using assms(4) by (rule left_join_as2_unmatched)
  have mem: "(r, None) \<in> set (route_rows db ?T ?S)"
    using assms(1,2,3) j by (force simp: set_route_rows)
  then have ne: "map select_route (route_rows db ?T ?S) \<noteq> []" by auto
  have "select_route (r, None) \<in> set (map select_route (route_rows db ?T ?S))"
    using mem by (simp only: set_map image_eqI)
  then have "\<lparr>ro_block = ir_block r, ro_path = ir_path r,
          ro_origin = json_last_text (ir_path r), ro_name = None\<rparr>
           \<in> set (map select_route (route_rows db ?T ?S))"
    by (simp add: select_route_def)
  moreover have "routes (routes_of_snapshot db snapshot)
                   = Some (map select_route (route_rows db ?T ?S))"
    using ne by (simp add: routes_of_snapshot_def route_statement_def Let_def)
  ultimately have incl: "\<exists>rs. routes (routes_of_snapshot db snapshot) = Some rs
            \<and> \<lparr>ro_block = ir_block r, ro_path = ir_path r,
                ro_origin = json_last_text (ir_path r), ro_name = None\<rparr> \<in> set rs"
    by blast
  have only: "\<forall>ra\<in>set (route_rows db ?T ?S). fst ra = r \<longrightarrow> snd ra = None"
  proof (intro ballI impI)
    fix ra assume ra: "ra \<in> set (route_rows db ?T ?S)" and f: "fst ra = r"
    then obtain r' where r': "ra \<in> set (left_join_as2 (autonomous_systems db) r')"
      by (auto simp: set_route_rows)
    then have "fst ra \<in> fst ` set (left_join_as2 (autonomous_systems db) r')" by simp
    then have "r' = r" using f by (simp add: fst_left_join_as2)
    with r' j show "snd ra = None" by simp
  qed
  from incl only show ?thesis by simp
qed

theorem unmatched_origin_null_name_witness:
  "\<exists>rs. routes (routes_of_snapshot example_db
         \<lparr>rs_id = 12, rs_route_collector_id = 1,
          rs_created_at = ((2024, 3, 11), (2, 0, 0, 0)), rs_status = ''pending''\<rparr>) = Some rs
     \<and> \<lparr>ro_block = ''192.0.2.0/24'', ro_path = [64500, 64999],
         ro_origin = Some ''64999'', ro_name = None\<rparr> \<in> set rs"
proof -
  let ?r = "\<lparr>ir_block = ''192.0.2.0/24'', ir_path = [64500, 64999], ir_snapshot_id = 12,
             ir_created_at = ((2024, 3, 11), (2, 0, 0, 0))\<rparr>"
  let ?s = "\<lparr>rs_id = 12, rs_route_collector_id = 1,
             rs_created_at = ((2024, 3, 11), (2, 0, 0, 0)), rs_status = ''pending''\<rparr>"
  have h1: "?r \<in> set (ip_routes example_db)" by (simp add: example_db_tables)
  have h2: "ir_created_at ?r = rs_created_at ?s" by simp
  have h3: "ir_snapshot_id ?r = rs_id ?s" by simp
  have h4: "\<forall>a\<in>set (autonomous_systems example_db).
              ir_path ?r \<noteq> [] \<longrightarrow> as_number a \<noteq> last (ir_path ?r)"
    by (simp add: example_db_tables)
  have o: "json_last_text [64500, 64999] = Some ''64999''"
    by (simp add: json_last_text_def text_of_nat.simps digit_char_def)
  from unmatched_origin_null_name [OF h1 h2 h3 h4, THEN conjunct1]
  show ?thesis by (simp add: o)
qed

section \<open>A snapshot of another collector\<close>

text \<open>
  Claim C4. \<^verbatim>\<open>get_snapshot_routes\<close> looks the snapshot up by its id alone. In the
  sample store snapshot 13 belongs to collector 2 (\<^verbatim>\<open>ams-rc2\<close>); asked for it under
  collector 1 (\<^verbatim>\<open>ams-rc1\<close>), the endpoint does not fail: it returns the routes of
  snapshot 13.
\<close>

theorem snapshot_routes_other_collector:
  "route_collector_by_name example_db ''ams-rc1''
     = Some \<lparr>rc_id = 1, rc_name = ''ams-rc1'', rc_ixp_id = 1\<rparr>
   \<and> first_row (filter (\<lambda>s. rs_id s = 13) (routing_snapshots example_db))
     = Some \<lparr>rs_id = 13, rs_route_collector_id = 2,
             rs_created_at = ((2024, 3, 11), (2, 0, 0, 0)), rs_status = ''parsed''\<rparr>
   \<and> get_snapshot_routes example_db ''ams-rc1'' 13
     = ([Table_query ''route_collectors'', Table_query ''routing_snapshots'', Route_statement],
        Inr \<lparr>metadata = \<lparr>md_created_at = ((2024, 3, 11), (2, 0, 0, 0)), md_snapshot_id = 13\<rparr>,
             routes = Some [\<lparr>ro_block = ''198.51.100.0/24'', ro_path = [64502],
                              ro_origin = Some ''64502'', ro_name = None\<rparr>]\<rparr>)"
proof -
  have c: "route_collector_by_name example_db ''ams-rc1''
     = Some \<lparr>rc_id = 1, rc_name = ''ams-rc1'', rc_ixp_id = 1\<rparr>"
    by (rule example_collectors_by_name)
  have s: "first_row (filter (\<lambda>s. rs_id s = 13) (routing_snapshots example_db))
     = Some \<lparr>rs_id = 13, rs_route_collector_id = 2,
             rs_created_at = ((2024, 3, 11), (2, 0, 0, 0)), rs_status = ''parsed''\<rparr>"
    by (simp add: first_row_def example_db_tables)
  have "get_snapshot_routes example_db ''ams-rc1'' 13
     = ([Table_query ''route_collectors'', Table_query ''routing_snapshots'', Route_statement],
        Inr \<lparr>metadata = \<lparr>md_created_at = ((2024, 3, 11), (2, 0, 0, 0)), md_snapshot_id = 13\<rparr>,
             routes = Some [\<lparr>ro_block = ''198.51.100.0/24'', ro_path = [64502],
                              ro_origin = Some ''64502'', ro_name = None\<rparr>]\<rparr>)"
    by (simp add: get_snapshot_routes_def c s routes_of_snapshot_def example_routes_13)
  with c s show ?thesis by simp
qed

section \<open>The schedule after startup\<close>

text \<open>
  Claim C3, amended. Let the configuration have a \<^verbatim>\<open>grabbers\<close> table whose
  entries, in order, are the collectors of \<open>sched\<close> with their \<^verbatim>\<open>hour\<close> and
  \<^verbatim>\<open>minutes\<close> fields, every hour within 0..23 and every minute within 0..59. Whatever
  the registry held before, and whether the registry replaces or refuses a duplicate
  name, \<^verbatim>\<open>startup\<close> ends without error and leaves exactly one entry per configured
  collector and no other: named \<^verbatim>\<open>grab-\<close> followed by the collector, with the
  collector's cron trigger, the ingestion task and the collector as sole argument. The
  names are distinct, and a second run on the result succeeds with the same entries.
\<close>

theorem startup_reconciles:
  assumes "aspath_config ''grabbers'' = Some gs"
    and "distinct (map fst gs)"
    and "list_all2 (\<lambda>gc ghm. fst ghm = fst gc \<and> snd gc ''hour'' = Some (fst (snd ghm))
             \<and> snd gc ''minutes'' = Some (snd (snd ghm))
             \<and> 0 \<le> fst (snd ghm) \<and> fst (snd ghm) < 24
             \<and> 0 \<le> snd (snd ghm) \<and> snd (snd ghm) < 60) gs sched"
  shows "snd (startup policy aspath_config reg) = Inr ()
       \<and> mset (scheduler_list (fst (startup policy aspath_config reg))) = mset (map spec_schedule_entry sched)
       \<and> distinct (map se_name (scheduler_list (fst (startup policy aspath_config reg))))
       \<and> length (scheduler_list (fst (startup policy aspath_config reg))) = length gs
       \<and> snd (startup policy aspath_config (fst (startup policy aspath_config reg))) = Inr ()
       \<and> mset (scheduler_list (fst (startup policy aspath_config (fst (startup policy aspath_config reg)))))
           = mset (scheduler_list (fst (startup policy aspath_config reg)))"
proof -
  have l2: "list_all2 (\<lambda>g ghm. fst ghm = g \<and> (\<exists>cfg. map_of gs g = Some cfg
              \<and> cfg ''hour'' = Some (fst (snd ghm)) \<and> cfg ''minutes'' = Some (snd (snd ghm)))
              \<and> 0 \<le> fst (snd ghm) \<and> fst (snd ghm) < 24
              \<and> 0 \<le> snd (snd ghm) \<and> snd (snd ghm) < 60)
            (map fst gs) sched"
    unfolding list_all2_map1
  proof (rule list.rel_mono_strong [OF assms(3)])
    fix gc ghm
    assume gc: "gc \<in> set gs" and "ghm \<in> set sched"
      and p: "fst ghm = fst gc \<and> snd gc ''hour'' = Some (fst (snd ghm))
             \<and> snd gc ''minutes'' = Some (snd (snd ghm))
             \<and> 0 \<le> fst (snd ghm) \<and> fst (snd ghm) < 24
             \<and> 0 \<le> snd (snd ghm) \<and> snd (snd ghm) < 60"
    have "map_of gs (fst gc) = Some (snd gc)"
      using gc assms(2) by (simp add: map_of_eq_Some_iff)
    with p show "fst ghm = fst gc \<and> (\<exists>cfg. map_of gs (fst gc) = Some cfg
              \<and> cfg ''hour'' = Some (fst (snd ghm)) \<and> cfg ''minutes'' = Some (snd (snd ghm)))
              \<and> 0 \<le> fst (snd ghm) \<and> fst (snd ghm) < 24
              \<and> 0 \<le> snd (snd ghm) \<and> snd (snd ghm) < 60"
      by simp
  qed
  have run: "\<And>r. startup policy aspath_config r = (map spec_schedule_entry sched, Inr ())"
  proof -
    fix r
    have "setup_schedule policy gs (map fst gs) [] = ([] @ map spec_schedule_entry sched, Inr ())"
      using l2 assms(2) by (rule setup_schedule_ok) simp
    then show "startup policy aspath_config r = (map spec_schedule_entry sched, Inr ())"
      by (simp add: startup_def wipe_all assms(1))
  qed
  have names: "map se_name (map spec_schedule_entry sched) = map (\<lambda>g. ''grab-'' @ g) (map fst gs)"
    using assms(3)
    by (induction gs sched rule: list_all2_induct) (auto simp: spec_schedule_entry_def split: prod.splits)
  have "distinct (map (\<lambda>g. ''grab-'' @ g) (map fst gs))"
    using assms(2) by (simp add: distinct_map inj_on_def)
  with names have dn: "distinct (map se_name (map spec_schedule_entry sched))" by simp
  have len: "length sched = length gs" using assms(3) by (simp add: list_all2_lengthD)
  show ?thesis using dn len by (simp add: run scheduler_list_def)
qed

theorem startup_reconciles_witness:
  "startup Reject example_config stale_registry
     = ([\<lparr>se_name = ''grab-AMS-IX'', se_schedule = \<lparr>cron_hour = 2, cron_minute = 0\<rparr>,
          se_task = ''worker.grab_and_ingest'', se_args = [''AMS-IX'']\<rparr>,
         \<lparr>se_name = ''grab-DE-CIX'', se_schedule = \<lparr>cron_hour = 3, cron_minute = 15\<rparr>,
          se_task = ''worker.grab_and_ingest'', se_args = [''DE-CIX'']\<rparr>], Inr ())
   \<and> startup Upsert example_config stale_registry
     = ([\<lparr>se_name = ''grab-AMS-IX'', se_schedule = \<lparr>cron_hour = 2, cron_minute = 0\<rparr>,
          se_task = ''worker.grab_and_ingest'', se_args = [''AMS-IX'']\<rparr>,
         \<lparr>se_name = ''grab-DE-CIX'', se_schedule = \<lparr>cron_hour = 3, cron_minute = 15\<rparr>,
          se_task = ''worker.grab_and_ingest'', se_args = [''DE-CIX'']\<rparr>], Inr ())
   \<and> mset (scheduler_list (fst (startup Reject example_config stale_registry)))
       = mset (map spec_schedule_entry [(''AMS-IX'', 2, 0), (''DE-CIX'', 3, 15)])
   \<and> mset (scheduler_list (fst (startup Reject example_config
               (fst (startup Reject example_config stale_registry)))))
       = mset (scheduler_list (fst (startup Reject example_config stale_registry)))"
proof -
  have h1: "example_config ''grabbers'' = Some example_grabbers"
    by (simp add: example_config_def)
  have h2: "distinct (map fst example_grabbers)"
    by (simp add: example_grabbers_def)
  have h3: "list_all2 (\<lambda>gc ghm. fst ghm = fst gc \<and> snd gc ''hour'' = Some (fst (snd ghm))
             \<and> snd gc ''minutes'' = Some (snd (snd ghm))
             \<and> 0 \<le> fst (snd ghm) \<and> fst (snd ghm) < 24
             \<and> 0 \<le> snd (snd ghm) \<and> snd (snd ghm) < 60)
           example_grabbers [(''AMS-IX'', 2, 0), (''DE-CIX'', 3, 15)]"
    by (simp add: example_grabbers_def)
  note r = startup_reconciles [where aspath_config = example_config and gs = example_grabbers
      and sched = "[(''AMS-IX'', 2, 0), (''DE-CIX'', 3, 15)]" and policy = Reject
      and reg = stale_registry, OF h1 h2 h3]
  have a: "startup Reject example_config stale_registry
     = ([\<lparr>se_name = ''grab-AMS-IX'', se_schedule = \<lparr>cron_hour = 2, cron_minute = 0\<rparr>,
          se_task = ''worker.grab_and_ingest'', se_args = [''AMS-IX'']\<rparr>,
         \<lparr>se_name = ''grab-DE-CIX'', se_schedule = \<lparr>cron_hour = 3, cron_minute = 15\<rparr>,
          se_task = ''worker.grab_and_ingest'', se_args = [''DE-CIX'']\<rparr>], Inr ())"
    by (simp add: startup_def scheduler_list_def stale_registry_def example_config_def
        example_grabbers_def crontab_def scheduler_add_def)
  have b: "startup Upsert example_config stale_registry
     = ([\<lparr>se_name = ''grab-AMS-IX'', se_schedule = \<lparr>cron_hour = 2, cron_minute = 0\<rparr>,
          se_task = ''worker.grab_and_ingest'', se_args = [''AMS-IX'']\<rparr>,
         \<lparr>se_name = ''grab-DE-CIX'', se_schedule = \<lparr>cron_hour = 3, cron_minute = 15\<rparr>,
          se_task = ''worker.grab_and_ingest'', se_args = [''DE-CIX'']\<rparr>], Inr ())"
    by (simp add: startup_def scheduler_list_def stale_registry_def example_config_def
        example_grabbers_def crontab_def scheduler_add_def)
  note c = r [THEN conjunct2, THEN conjunct1]
  note d = r [THEN conjunct2, THEN conjunct2, THEN conjunct2, THEN conjunct2, THEN conjunct2]
  show ?thesis by (intro conjI a b c d)
qed

text \<open>
  Claim C3 as stated, for every configuration, fails: with the hour 25 for the
  second grabber, \<^verbatim>\<open>crontab\<close> raises \<^verbatim>\<open>ValueError\<close>, \<^verbatim>\<open>startup\<close> stops, and the
  registry is left with the first grabber's entry alone.
\<close>

theorem startup_hour25_counterexample:
  "startup Reject hour25_config stale_registry
     = ([\<lparr>se_name = ''grab-AMS-IX'', se_schedule = \<lparr>cron_hour = 2, cron_minute = 0\<rparr>,
          se_task = ''worker.grab_and_ingest'', se_args = [''AMS-IX'']\<rparr>], Inl ValueError)
   \<and> startup Upsert hour25_config stale_registry
     = ([\<lparr>se_name = ''grab-AMS-IX'', se_schedule = \<lparr>cron_hour = 2, cron_minute = 0\<rparr>,
          se_task = ''worker.grab_and_ingest'', se_args = [''AMS-IX'']\<rparr>], Inl ValueError)"
  by (simp add: startup_def scheduler_list_def stale_registry_def hour25_config_def
      crontab_def scheduler_add_def)

section \<open>The exchange point summary\<close>

text \<open>
  Claim C8. \<^verbatim>\<open>exchange_points_index\<close> never fails, and has one entry per exchange point
  id, with the id and name of an exchange point. In each entry \<^verbatim>\<open>route_collectors\<close>
  is the number of collectors of that exchange point. When those collectors have no
  snapshot, no \<^verbatim>\<open>last_snapshot_*\<close> key is attached; otherwise the three keys describe
  one snapshot of one of those collectors whose \<^verbatim>\<open>created_at\<close> is the largest among
  all their snapshots, whatever the status: its id, the collector's name, and its
  calendar date as year, month and day joined by dashes. The date attached is the
  rendering of exactly the timestamps of that calendar day.
\<close>

theorem exchange_points_last_snapshot:
  "\<exists>eps. exchange_points_index db = Inr eps
     \<and> fst ` set eps = ixp_id ` set (internet_exchange_points db)
     \<and> (\<forall>kv\<in>set eps.
          ep_id (snd kv) = (fst kv)
          \<and> (\<exists>ixp\<in>set (internet_exchange_points db).
                 ixp_id ixp = (fst kv) \<and> ixp_name ixp = ep_name (snd kv))
          \<and> ep_route_collectors (snd kv)
              = int (length (filter (\<lambda>c. rc_ixp_id c = (fst kv)) (route_collectors db)))
          \<and> (if snapshots_of_exchange_point db (fst kv) = []
             then ep_last_snapshot_date (snd kv) = None \<and> ep_last_snapshot_id (snd kv) = None
                    \<and> ep_last_snapshot_collector_name (snd kv) = None
             else \<exists>s\<in>set (snapshots_of_exchange_point db (fst kv)).
                    (\<forall>s'\<in>set (snapshots_of_exchange_point db (fst kv)).
                        rs_created_at s' \<le> rs_created_at s)
                    \<and> ep_last_snapshot_id (snd kv) = Some (rs_id s)
                    \<and> ep_last_snapshot_date (snd kv)
                        = Some (text_of_nat (fst (fst (rs_created_at s))) @ ''-''
                                @ zfill 2 (text_of_nat (fst (snd (fst (rs_created_at s))))) @ ''-''
                                @ zfill 2 (text_of_nat (snd (snd (fst (rs_created_at s))))))
                    \<and> (\<forall>dt. (ep_last_snapshot_date (snd kv) = Some (strftime_Ymd dt))
                              = (fst dt = fst (rs_created_at s)))
                    \<and> (\<exists>c\<in>set (route_collectors db).
                           rc_ixp_id c = (fst kv) \<and> rc_id c = rs_route_collector_id s
                           \<and> ep_last_snapshot_collector_name (snd kv) = Some (rc_name c))))"
proof -
  let ?P = "\<lambda>k ep. ep_id ep = k
          \<and> (\<exists>ixp\<in>set (internet_exchange_points db).
                 ixp_id ixp = k \<and> ixp_name ixp = ep_name ep)
          \<and> ep_route_collectors ep
              = int (length (filter (\<lambda>c. rc_ixp_id c = k) (route_collectors db)))
          \<and> (if snapshots_of_exchange_point db k = []
             then ep_last_snapshot_date ep = None \<and> ep_last_snapshot_id ep = None
                    \<and> ep_last_snapshot_collector_name ep = None
             else \<exists>s\<in>set (snapshots_of_exchange_point db k).
                    (\<forall>s'\<in>set (snapshots_of_exchange_point db k).
                        rs_created_at s' \<le> rs_created_at s)
                    \<and> ep_last_snapshot_id ep = Some (rs_id s)
                    \<and> ep_last_snapshot_date ep
                        = Some (text_of_nat (fst (fst (rs_created_at s))) @ ''-''
                                @ zfill 2 (text_of_nat (fst (snd (fst (rs_created_at s))))) @ ''-''
                                @ zfill 2 (text_of_nat (snd (snd (fst (rs_created_at s))))))
                    \<and> (\<forall>dt. (ep_last_snapshot_date ep = Some (strftime_Ymd dt))
                              = (fst dt = fst (rs_created_at s)))
                    \<and> (\<exists>c\<in>set (route_collectors db).
                           rc_ixp_id c = k \<and> rc_id c = rs_route_collector_id s
                           \<and> ep_last_snapshot_collector_name ep = Some (rc_name c)))"
  have one: "\<forall>ixp\<in>set (internet_exchange_points db).
               \<exists>ep. exchange_point_summary db ixp = Inr ep \<and> ?P (ixp_id ixp) ep"
  proof
    fix ixp assume mem: "ixp \<in> set (internet_exchange_points db)"
    from exchange_point_summary_pinned [of db ixp] obtain ep
      where ep: "exchange_point_summary db ixp = Inr ep"
        and a: "ep_id ep = ixp_id ixp" and b: "ep_name ep = ixp_name ixp"
        and rest: "ep_route_collectors ep
         = int (length (filter (\<lambda>c. rc_ixp_id c = ixp_id ixp) (route_collectors db)))
     \<and> (if snapshots_of_exchange_point db (ixp_id ixp) = []
        then ep_last_snapshot_date ep = None \<and> ep_last_snapshot_id ep = None
               \<and> ep_last_snapshot_collector_name ep = None
        else \<exists>s\<in>set (snapshots_of_exchange_point db (ixp_id ixp)).
               (\<forall>s'\<in>set (snapshots_of_exchange_point db (ixp_id ixp)).
                        rs_created_at s' \<le> rs_created_at s)
                    \<and> ep_last_snapshot_id ep = Some (rs_id s)
                    \<and> ep_last_snapshot_date ep
                        = Some (text_of_nat (fst (fst (rs_created_at s))) @ ''-''
                                @ zfill 2 (text_of_nat (fst (snd (fst (rs_created_at s))))) @ ''-''
                                @ zfill 2 (text_of_nat (snd (snd (fst (rs_created_at s))))))
                    \<and> (\<forall>dt. (ep_last_snapshot_date ep = Some (strftime_Ymd dt))
                              = (fst dt = fst (rs_created_at s)))
                    \<and> (\<exists>c\<in>set (route_collectors db).
                           rc_ixp_id c = (ixp_id ixp) \<and> rc_id c = rs_route_collector_id s
                           \<and> ep_last_snapshot_collector_name ep = Some (rc_name c)))"
      by blast
    have nm: "\<exists>ixp'\<in>set (internet_exchange_points db).
                 ixp_id ixp' = ixp_id ixp \<and> ixp_name ixp' = ep_name ep"
      using mem b by (intro bexI [of _ ixp]) simp_all
    show "\<exists>ep. exchange_point_summary db ixp = Inr ep \<and> ?P (ixp_id ixp) ep"
      by (rule exI [of _ ep])
        (intro conjI ep a nm rest [THEN conjunct1] rest [THEN conjunct2])
  qed
  have "\<forall>kv\<in>set ([] :: (int \<times> exchange_point) list). ?P (fst kv) (snd kv)" by simp
  from exchange_points_loop_ok [where P = ?P, OF one this]
  show ?thesis unfolding exchange_points_index_def by simp
qed

theorem exchange_points_last_snapshot_witness:
  "exchange_points_index example_db
     = Inr [(1, \<lparr>ep_id = 1, ep_name = ''AMS-IX'', ep_route_collectors = 2,
                 ep_last_snapshot_date = Some ''2024-03-11'',
                 ep_last_snapshot_id = Some 12,
                 ep_last_snapshot_collector_name = Some ''ams-rc1''\<rparr>),
            (2, \<lparr>ep_id = 2, ep_name = ''DE-CIX'', ep_route_collectors = 1,
                 ep_last_snapshot_date = Some ''2023-12-05'',
                 ep_last_snapshot_id = Some 14,
                 ep_last_snapshot_collector_name = Some ''dec-rc1''\<rparr>),
            (3, \<lparr>ep_id = 3, ep_name = ''LINX'', ep_route_collectors = 0,
                 ep_last_snapshot_date = None, ep_last_snapshot_id = None,
                 ep_last_snapshot_collector_name = None\<rparr>)]
   \<and> (\<exists>eps. exchange_points_index example_db = Inr eps
     \<and> fst ` set eps = ixp_id ` set (internet_exchange_points example_db)
     \<and> (\<forall>kv\<in>set eps.
          ep_id (snd kv) = (fst kv)
          \<and> (\<exists>ixp\<in>set (internet_exchange_points example_db).
                 ixp_id ixp = (fst kv) \<and> ixp_name ixp = ep_name (snd kv))
          \<and> ep_route_collectors (snd kv)
              = int (length (filter (\<lambda>c. rc_ixp_id c = (fst kv)) (route_collectors example_db)))
          \<and> (if snapshots_of_exchange_point example_db (fst kv) = []
             then ep_last_snapshot_date (snd kv) = None \<and> ep_last_snapshot_id (snd kv) = None
                    \<and> ep_last_snapshot_collector_name (snd kv) = None
             else \<exists>s\<in>set (snapshots_of_exchange_point example_db (fst kv)).
                    (\<forall>s'\<in>set (snapshots_of_exchange_point example_db (fst kv)).
                        rs_created_at s' \<le> rs_created_at s)
                    \<and> ep_last_snapshot_id (snd kv) = Some (rs_id s)
                    \<and> ep_last_snapshot_date (snd kv)
                        = Some (text_of_nat (fst (fst (rs_created_at s))) @ ''-''
                                @ zfill 2 (text_of_nat (fst (snd (fst (rs_created_at s))))) @ ''-''
                                @ zfill 2 (text_of_nat (snd (snd (fst (rs_created_at s))))))
                    \<and> (\<forall>dt. (ep_last_snapshot_date (snd kv) = Some (strftime_Ymd dt))
                              = (fst dt = fst (rs_created_at s)))
                    \<and> (\<exists>c\<in>set (route_collectors example_db).
                           rc_ixp_id c = (fst kv) \<and> rc_id c = rs_route_collector_id s
                           \<and> ep_last_snapshot_collector_name (snd kv) = Some (rc_name c)))))"
  by (rule conjI [OF example_exchange_points exchange_points_last_snapshot])

end
